theory Spec2Isabelle
  imports Complex_Main "HOL-Library.Stream" "HOL-Library.Monad_Syntax"
begin

section \<open>Values, the random source and the Python library\<close>

text \<open>
  A cell of the data frame, or an argument of one of the mutators of
  \<^verbatim>\<open>corrupt_data.py\<close>. Python's \<^verbatim>\<open>None\<close> and the float NaN are both missing markers
  for \<^verbatim>\<open>pd.isna\<close>, but they are different objects (line 118 tests \<^verbatim>\<open>is not None\<close>, and
  \<^verbatim>\<open>str\<close> prints them differently), so both are kept. Python floats are modelled by
  the real number it denotes. The float additions and the float multiplication that
  the code performs round their result: they are operations of the library record
  below, not the addition and the multiplication of the reals.
\<close>

datatype cell = PyNone | PyNaN | PyStr string | PyInt int | PyFloat real

definition isna :: "cell \<Rightarrow> bool" where
  "isna c = (c = PyNone \<or> c = PyNaN)"

definition notna :: "cell \<Rightarrow> bool" where
  "notna c = (\<not> isna c)"

text \<open>
  The module-global generator of \<^verbatim>\<open>random\<close> is an infinite supply of draws, one natural
  number each; every call consumes the next draw. \<^verbatim>\<open>random.random()\<close> returns a multiple
  of \<open>2\<^sup>-\<^sup>5\<^sup>3\<close> in \<open>[0, 1)\<close>, \<^verbatim>\<open>randint(a, b)\<close> (called with \<open>a \<le> b\<close> only) a value of
  \<open>a..b\<close>, \<^verbatim>\<open>choice\<close> an element of a non-empty list (IndexError, here \<open>None\<close>, on the
  empty one). Every outcome of the library call is the image of some draw.
  \<^verbatim>\<open>uniform(a, b)\<close> is \<^verbatim>\<open>a + (b - a) * random()\<close>; the code calls it with -1 and 1 only,
  where the floats compute this exactly (\<open>2u\<close> is a multiple of \<open>2\<^sup>-\<^sup>5\<^sup>2\<close> below 2, and
  \<open>-1 + 2u\<close> a multiple of \<open>2\<^sup>-\<^sup>5\<^sup>2\<close> in \<open>[-1, 1)\<close>, which is a float).
\<close>

type_synonym rng = "nat stream"

definition random_random :: "rng \<Rightarrow> real \<times> rng" where
  "random_random g = (real (shd g mod 2 ^ 53) / 2 ^ 53, stl g)"

definition randint :: "int \<Rightarrow> int \<Rightarrow> rng \<Rightarrow> int \<times> rng" where
  "randint a b g = (a + int (shd g mod nat (b - a + 1)), stl g)"

definition uniform :: "real \<Rightarrow> real \<Rightarrow> rng \<Rightarrow> real \<times> rng" where
  "uniform a b g = (case random_random g of (u, g') \<Rightarrow> (a + (b - a) * u, g'))"

definition choice :: "'a list \<Rightarrow> rng \<Rightarrow> ('a \<times> rng) option" where
  "choice xs g = (if xs = [] then None else Some (xs ! (shd g mod length xs), stl g))"

text \<open>
  \<^verbatim>\<open>random.sample(range(n), k)\<close>: ValueError unless \<open>0 \<le> k \<le> n\<close>; otherwise \<open>k\<close>
  distinct positions below \<open>n\<close>, in the order of their selection. The library selects
  from a pool when the population is small and by rejecting repeated positions when it
  is large; the two ways differ in which draws give which selection, not in the
  selections that can come out. The pool is what is modelled: a position of the pool
  is picked, the pool's last element moves into the hole, and the pool gets shorter by
  one. Every list of \<open>k\<close> distinct positions below \<open>n\<close> is the result for some draws
  (lemma \<open>sample_range_reaches\<close> below).
\<close>

fun sample_pool :: "nat list \<Rightarrow> nat \<Rightarrow> rng \<Rightarrow> nat list \<times> rng" where
  "sample_pool pool 0 g = ([], g)"
| "sample_pool pool (Suc k) g =
     (let j = shd g mod length pool in
      case sample_pool (butlast (pool[j := last pool])) k (stl g) of
        (rest, g') \<Rightarrow> (pool ! j # rest, g'))"

definition sample_range :: "nat \<Rightarrow> int \<Rightarrow> rng \<Rightarrow> (nat list \<times> rng) option" where
  "sample_range n k g =
     (if 0 \<le> k \<and> k \<le> int n then Some (sample_pool [0..<n] (nat k) g) else None)"

text \<open>
  A naive \<^verbatim>\<open>datetime\<close> (the code never sets microseconds or a time zone) and a
  \<^verbatim>\<open>timedelta\<close>, kept as its number of seconds.
\<close>

record datetime =
  year :: nat
  month :: nat
  day :: nat
  hour :: nat
  minute :: nat
  second :: nat

text \<open>
  What the code takes from the Python standard library and cannot be read off
  \<^verbatim>\<open>corrupt_data.py\<close> itself is a parameter of the model; every general theorem below
  holds for every such library. \<open>None\<close> is the ValueError of \<^verbatim>\<open>strptime\<close>, \<^verbatim>\<open>float\<close> and
  \<^verbatim>\<open>int\<close>, and the OverflowError of a date before year 1. \<open>float_add\<close> and
  \<open>float_mul\<close> are \<^verbatim>\<open>x + y\<close> and \<^verbatim>\<open>x * y\<close> on two floats: the exact sum and product,
  rounded to a float.
\<close>

record pylib =
  strptime :: "string \<Rightarrow> string \<Rightarrow> datetime option"
  strftime :: "datetime \<Rightarrow> string \<Rightarrow> string"
  dt_minus :: "datetime \<Rightarrow> int \<Rightarrow> datetime option"
  str_title :: "string \<Rightarrow> string"
  str_upper :: "string \<Rightarrow> string"
  str_lower :: "string \<Rightarrow> string"
  re_sub_ws :: "string \<Rightarrow> string"
  float_of_str :: "string \<Rightarrow> real option"
  int_of_str :: "string \<Rightarrow> int option"
  str_of_float :: "real \<Rightarrow> string"
  float_add :: "real \<Rightarrow> real \<Rightarrow> real"
  float_mul :: "real \<Rightarrow> real \<Rightarrow> real"

function nat_str :: "nat \<Rightarrow> string" where
  "nat_str n = (if n < 10 then [''0123456789'' ! n] else nat_str (n div 10) @ [''0123456789'' ! (n mod 10)])"
  by pat_completeness auto
termination
  by (relation "measure id") auto

definition int_str :: "int \<Rightarrow> string" where
  "int_str i = (if i < 0 then CHR ''-'' # nat_str (nat (- i)) else nat_str (nat i))"

text \<open>\<^verbatim>\<open>str(x)\<close> of a cell, which is also what \<^verbatim>\<open>astype(str)\<close> does to each element.\<close>

fun py_str :: "pylib \<Rightarrow> cell \<Rightarrow> string" where
  "py_str L PyNone = ''None''"
| "py_str L PyNaN = ''nan''"
| "py_str L (PyStr s) = s"
| "py_str L (PyInt i) = int_str i"
| "py_str L (PyFloat x) = str_of_float L x"

section \<open>The generator and its station registry\<close>

record variants =
  names :: "cell list"
  ids :: "cell list"
  coordinates :: "(cell \<times> cell) list"

text \<open>
  The fields of \<^verbatim>\<open>DataErrorGenerator\<close> that the code reads, and the state of the random
  module, which every method advances.
\<close>

record generator =
  error_prob :: real
  max_empty_percentage :: real
  station_variants :: "string \<rightharpoonup> variants"
  rng :: rng

definition base_datetime_format :: string where
  "base_datetime_format = ''%Y-%m-%d %H:%M:%S''"

definition new_generator :: "real \<Rightarrow> real \<Rightarrow> rng \<Rightarrow> generator" where
  "new_generator error_probability max_empty g =
     \<lparr>error_prob = error_probability, max_empty_percentage = max_empty,
      station_variants = Map.empty, rng = g\<rparr>"

definition should_introduce_error :: "generator \<Rightarrow> bool \<times> generator" where
  "should_introduce_error G =
     (case random_random (rng G) of (u, g') \<Rightarrow> (u < error_prob G, G\<lparr>rng := g'\<rparr>))"

text \<open>
  \<^verbatim>\<open>base_lat + lat_variation\<close>, a float addition: a TypeError on a string or on
  \<^verbatim>\<open>None\<close>.
\<close>

fun add_float :: "pylib \<Rightarrow> cell \<Rightarrow> real \<Rightarrow> cell option" where
  "add_float L (PyInt i) u = Some (PyFloat (float_add L (real_of_int i) u))"
| "add_float L (PyFloat x) u = Some (PyFloat (float_add L x u))"
| "add_float L PyNaN u = Some PyNaN"
| "add_float L (PyStr s) u = None"
| "add_float L PyNone u = None"

text \<open>The loop of lines 121 to 124: two draws and one point for each variant.\<close>

fun jitter ::
  "pylib \<Rightarrow> nat \<Rightarrow> cell \<Rightarrow> cell \<Rightarrow> rng \<Rightarrow> ((cell \<times> cell) list \<times> rng) option" where
  "jitter L 0 base_lat base_lng g = Some ([], g)"
| "jitter L (Suc k) base_lat base_lng g =
     (case uniform (- 1) 1 g of (lat_variation, g1) \<Rightarrow>
      case uniform (- 1) 1 g1 of (lng_variation, g2) \<Rightarrow>
        do {
          a \<leftarrow> add_float L base_lat lat_variation;
          b \<leftarrow> add_float L base_lng lng_variation;
          (rest, g3) \<leftarrow> jitter L k base_lat base_lng g2;
          Some ((a, b) # rest, g3)
        })"

text \<open>\<^verbatim>\<open>int(x)\<close> of a float truncates towards zero.\<close>

definition trunc :: "real \<Rightarrow> int" where
  "trunc x = (if 0 \<le> x then \<lfloor>x\<rfloor> else \<lceil>x\<rceil>)"

text \<open>The float that the literal \<^verbatim>\<open>0.1\<close> of line 133 denotes.\<close>

definition float_tenth :: real where
  "float_tenth = 3602879701896397 / 36028797018963968"

text \<open>
  Lines 129 to 141. \<^verbatim>\<open>float(station_id)\<close> is evaluated before \<^verbatim>\<open>int(station_id)\<close>; a
  ValueError of either leaves the stringified id alone.
\<close>

definition id_variants :: "pylib \<Rightarrow> cell \<Rightarrow> cell list" where
  "id_variants L station_id =
     (if isna station_id then [station_id]
      else case station_id of
        PyStr s \<Rightarrow>
          (case float_of_str L s of
             None \<Rightarrow> [PyStr s]
           | Some f \<Rightarrow>
               (case int_of_str L s of
                  None \<Rightarrow> [PyStr s]
                | Some i \<Rightarrow>
                    [PyStr s, PyStr (str_of_float L (float_add L f float_tenth)), PyStr (int_str (i + 1))]))
      | PyInt i \<Rightarrow>
          [PyStr (int_str i), PyStr (str_of_float L (float_add L (real_of_int i) float_tenth)),
           PyStr (int_str (i + 1))]
      | PyFloat x \<Rightarrow>
          [PyStr (str_of_float L x), PyStr (str_of_float L (float_add L x float_tenth)),
           PyStr (int_str (trunc x + 1))]
      | _ \<Rightarrow> [station_id])"

text \<open>\<^verbatim>\<open>name.replace('&', 'and')\<close>.\<close>

fun replace_amp :: "string \<Rightarrow> string" where
  "replace_amp [] = []"
| "replace_amp (c # cs) = (if c = CHR ''&'' then ''and'' @ replace_amp cs else c # replace_amp cs)"

definition name_variants :: "pylib \<Rightarrow> string \<Rightarrow> cell list" where
  "name_variants L name =
     [PyStr name, PyStr (str_title L name), PyStr (str_upper L name),
      PyStr (replace_amp name), PyStr (re_sub_ws L name)]"

text \<open>
  \<^verbatim>\<open>_get_station_variants\<close>. The keys of the registry are strings: for a name that is
  neither missing nor a string, \<^verbatim>\<open>name.title()\<close> raises AttributeError before anything
  is stored.
\<close>

definition get_station_variants ::
  "pylib \<Rightarrow> cell \<Rightarrow> cell \<Rightarrow> cell \<Rightarrow> cell \<Rightarrow> generator \<Rightarrow> (variants \<times> generator) option" where
  "get_station_variants L name station_id lat lng G =
     (if isna name
      then Some (\<lparr>names = [name], ids = [station_id], coordinates = [(lat, lng)]\<rparr>, G)
      else case (case name of PyStr n \<Rightarrow> station_variants G n | _ \<Rightarrow> None) of
        Some v \<Rightarrow> Some (v, G)
      | None \<Rightarrow>
          (case randint 3 4 (rng G) of (num_variants, g1) \<Rightarrow>
             do {
               (coordinate_variants, g2) \<leftarrow>
                 (if lat \<noteq> PyNone \<and> lng \<noteq> PyNone \<and> \<not> (isna lat \<or> isna lng)
                  then jitter L (nat num_variants) lat lng g1
                  else Some ([(lat, lng)], g1));
               n \<leftarrow> (case name of PyStr n \<Rightarrow> Some n | _ \<Rightarrow> None);
               let v = \<lparr>names = name_variants L n, ids = id_variants L station_id,
                        coordinates = coordinate_variants\<rparr>;
               Some (v, G\<lparr>station_variants := (station_variants G)(n \<mapsto> v), rng := g2\<rparr>)
             }))"

section \<open>The field mutators\<close>

definition gen_choice :: "'a list \<Rightarrow> generator \<Rightarrow> ('a \<times> generator) option" where
  "gen_choice xs G = do { (x, g') \<leftarrow> choice xs (rng G); Some (x, G\<lparr>rng := g'\<rparr>) }"

text \<open>\<^verbatim>\<open>' '.join(value[i:i+2] for i in range(0, len(value), 2))\<close>.\<close>

fun join_pairs :: "string \<Rightarrow> string" where
  "join_pairs (a # b # c # cs) = a # b # CHR '' '' # join_pairs (c # cs)"
| "join_pairs cs = cs"

text \<open>
  \<^verbatim>\<open>''.join(c.lower() if random.random() < 0.3 else c for c in value)\<close>: one draw for
  each character, from left to right.
\<close>

fun lower_some :: "pylib \<Rightarrow> string \<Rightarrow> rng \<Rightarrow> string \<times> rng" where
  "lower_some L [] g = ([], g)"
| "lower_some L (c # cs) g =
     (case random_random g of (u, g1) \<Rightarrow>
      case lower_some L cs g1 of (r, g2) \<Rightarrow>
        ((if u < 3 / 10 then str_lower L [c] else [c]) @ r, g2))"

text \<open>
  \<^verbatim>\<open>_modify_ride_id\<close>. \<^verbatim>\<open>len\<close>, slicing and iteration raise TypeError on a number, which
  nothing catches.
\<close>

definition modify_ride_id :: "pylib \<Rightarrow> cell \<Rightarrow> generator \<Rightarrow> (cell \<times> generator) option" where
  "modify_ride_id L v G =
     (if isna v then Some (v, G)
      else do {
        (b1, G1) \<leftarrow> Some (should_introduce_error G);
        v1 \<leftarrow> (if b1 then (case v of PyStr s \<Rightarrow> Some (PyStr (join_pairs s)) | _ \<Rightarrow> None)
               else Some v);
        (b2, G2) \<leftarrow> Some (should_introduce_error G1);
        if b2
        then (case v1 of
                PyStr s \<Rightarrow>
                  (case lower_some L s (rng G2) of (r, g') \<Rightarrow> Some (PyStr r, G2\<lparr>rng := g'\<rparr>))
              | _ \<Rightarrow> None)
        else Some (v1, G2)
      })"

fun starts_with :: "string \<Rightarrow> string \<Rightarrow> bool" where
  "starts_with [] s = True"
| "starts_with (p # ps) [] = False"
| "starts_with (p # ps) (c # cs) = (p = c \<and> starts_with ps cs)"

text \<open>\<^verbatim>\<open>sub in s\<close> for two strings.\<close>

fun contains :: "string \<Rightarrow> string \<Rightarrow> bool" where
  "contains sub [] = (sub = [])"
| "contains sub (c # cs) = (starts_with sub (c # cs) \<or> contains sub cs)"

definition rideable_errors :: "(string \<times> string list) list" where
  "rideable_errors =
     [(''classic_bike'', [''class_bike'', ''classic_bik'', ''clasic_bike'', ''classic bike'']),
      (''electric_bike'', [''electrc_bike'', ''electric bike'', ''eclectic_bike'', ''elektric_bike''])]"

definition modify_rideable_type :: "cell \<Rightarrow> generator \<Rightarrow> (cell \<times> generator) option" where
  "modify_rideable_type v G =
     (if isna v then Some (v, G)
      else do {
        (b, G1) \<leftarrow> Some (should_introduce_error G);
        if b
        then (case v of
                PyStr s \<Rightarrow>
                  (case find (\<lambda>(correct, vs). contains correct s) rideable_errors of
                     Some (correct, vs) \<Rightarrow>
                       do { (x, G2) \<leftarrow> gen_choice vs G1; Some (PyStr x, G2) }
                   | None \<Rightarrow> Some (v, G1))
              | _ \<Rightarrow> None)
        else Some (v, G1)
      })"

definition member_errors :: "(string \<times> string list) list" where
  "member_errors =
     [(''member'', [''Member'', ''MEMBER'', ''membr'', ''Members'']),
      (''casual'', [''Casual'', ''CASUAL'', ''causual'', ''Casuals''])]"

text \<open>\<^verbatim>\<open>_modify_member_type\<close>; \<^verbatim>\<open>value.lower()\<close> is an AttributeError on a number.\<close>

definition modify_member_type :: "pylib \<Rightarrow> cell \<Rightarrow> generator \<Rightarrow> (cell \<times> generator) option" where
  "modify_member_type L v G =
     (if isna v then Some (v, G)
      else do {
        (b, G1) \<leftarrow> Some (should_introduce_error G);
        if b
        then (case v of
                PyStr s \<Rightarrow>
                  (case find (\<lambda>(correct, vs). str_lower L correct = str_lower L s) member_errors of
                     Some (correct, vs) \<Rightarrow>
                       do { (x, G2) \<leftarrow> gen_choice vs G1; Some (PyStr x, G2) }
                   | None \<Rightarrow> Some (v, G1))
              | _ \<Rightarrow> None)
        else Some (v, G1)
      })"

definition date_formats :: "string list" where
  "date_formats =
     [''%Y/%m/%d %H:%M:%S'', ''%Y%m%d %H:%M:%S'', ''%Y-%m-%d %H%M%S'', ''%Y-%m-%d-%H-%M-%S'']"

text \<open>
  \<^verbatim>\<open>strptime(dt_str, self.base_datetime_format)\<close> on a cell: the TypeError of a value
  that is no string and the ValueError of a string that does not parse are both caught
  where the code calls it, so both are \<open>None\<close> here.
\<close>

definition parse_base :: "pylib \<Rightarrow> cell \<Rightarrow> datetime option" where
  "parse_base L c = (case c of PyStr s \<Rightarrow> strptime L s base_datetime_format | _ \<Rightarrow> None)"

definition format_datetime :: "pylib \<Rightarrow> cell \<Rightarrow> generator \<Rightarrow> (cell \<times> generator) option" where
  "format_datetime L dt_str G =
     (case parse_base L dt_str of
        None \<Rightarrow> Some (dt_str, G)
      | Some dt \<Rightarrow>
          do {
            (chosen_format, G1) \<leftarrow> gen_choice date_formats G;
            Some (PyStr (strftime L dt chosen_format), G1)
          })"

text \<open>
  Lines 96 to 100, in seconds: the three \<^verbatim>\<open>randint\<close> calls are all evaluated, then
  \<^verbatim>\<open>random.choice\<close> picks one of the three deltas.
\<close>

definition draw_time_difference :: "rng \<Rightarrow> (int \<times> rng) option" where
  "draw_time_difference g =
     (case randint 1 24 g of (h, g1) \<Rightarrow>
      case randint 1 7 g1 of (d, g2) \<Rightarrow>
      case randint 1 4 g2 of (w, g3) \<Rightarrow>
        choice [3600 * h, 86400 * d, 604800 * w] g3)"

text \<open>
  \<^verbatim>\<open>_modify_datetime\<close>. Line 95 parses the variable \<^verbatim>\<open>start_dt\<close>, which line 90 may have
  reassigned. The OverflowError of line 101 (a result before year 1) is not caught by
  the handler of line 104.
\<close>

definition modify_datetime ::
  "pylib \<Rightarrow> cell \<Rightarrow> cell \<Rightarrow> generator \<Rightarrow> ((cell \<times> cell) \<times> generator) option" where
  "modify_datetime L start_dt end_dt G =
     (if isna start_dt \<or> isna end_dt then Some ((start_dt, end_dt), G)
      else do {
        (b1, G1) \<leftarrow> Some (should_introduce_error G);
        (start1, end1, G2) \<leftarrow>
          (if b1
           then do {
             (s, Ga) \<leftarrow> format_datetime L start_dt G1;
             (e, Gb) \<leftarrow> format_datetime L end_dt Ga;
             Some (s, e, Gb)
           }
           else Some (start_dt, end_dt, G1));
        (b2, G3) \<leftarrow> Some (should_introduce_error G2);
        if b2
        then (case parse_base L start1 of
                None \<Rightarrow> Some ((start1, end1), G3)
              | Some dt \<Rightarrow>
                  do {
                    (time_difference, g4) \<leftarrow> draw_time_difference (rng G3);
                    dt' \<leftarrow> dt_minus L dt time_difference;
                    Some ((start1, PyStr (strftime L dt' base_datetime_format)),
                          G3\<lparr>rng := g4\<rparr>)
                  })
        else Some ((start1, end1), G3)
      })"

text \<open>\<^verbatim>\<open>_modify_station_name\<close>: the registry is called with the name and the id only.\<close>

definition modify_station_name ::
  "pylib \<Rightarrow> cell \<Rightarrow> cell \<Rightarrow> generator \<Rightarrow> ((cell \<times> cell) \<times> generator) option" where
  "modify_station_name L name station_id G =
     (if isna name \<or> isna station_id then Some ((name, station_id), G)
      else do {
        (vs, G1) \<leftarrow> get_station_variants L name station_id PyNone PyNone G;
        (b1, G2) \<leftarrow> Some (should_introduce_error G1);
        (modified_name, G3) \<leftarrow> (if b1 then gen_choice (names vs) G2 else Some (name, G2));
        (b2, G4) \<leftarrow> Some (should_introduce_error G3);
        (modified_id, G5) \<leftarrow>
          (if b2 then gen_choice (ids vs) G4 else Some (PyStr (py_str L station_id), G4));
        Some ((modified_name, modified_id), G5)
      })"

text \<open>\<^verbatim>\<open>_modify_coordinates\<close>.\<close>

definition modify_coordinates ::
  "pylib \<Rightarrow> cell \<Rightarrow> cell \<Rightarrow> cell \<Rightarrow> cell \<Rightarrow> generator \<Rightarrow> ((cell \<times> cell) \<times> generator) option" where
  "modify_coordinates L lat lng station_name station_id G =
     (if isna station_name \<or> isna lat \<or> isna lng then Some ((lat, lng), G)
      else do {
        (b, G1) \<leftarrow> Some (should_introduce_error G);
        if b
        then do {
          (vs, G2) \<leftarrow> get_station_variants L station_name station_id lat lng G1;
          gen_choice (coordinates vs) G2
        }
        else Some ((lat, lng), G1)
      })"

section \<open>The data frame and \<^verbatim>\<open>introduce_errors\<close>\<close>

text \<open>
  A data frame with the default index \<open>0, 1, ..\<close> (what \<^verbatim>\<open>pd.read_csv\<close> returns in
  \<^verbatim>\<open>main\<close>): its column labels in order, and its rows. The value of a row at a label
  that is not a column is never read.
\<close>

record table =
  columns :: "string list"
  rows :: "(string \<Rightarrow> cell) list"

text \<open>\<^verbatim>\<open>df.at[idx, c]\<close>: a KeyError when the column or the row does not exist.\<close>

definition at_get :: "table \<Rightarrow> nat \<Rightarrow> string \<Rightarrow> cell option" where
  "at_get T idx c =
     (if c \<in> set (columns T) \<and> idx < length (rows T) then Some ((rows T ! idx) c) else None)"

text \<open>
  \<^verbatim>\<open>df.at[idx, c] = v\<close>. Writing to a label that is no column would add the column,
  filled with NaN in the other rows.
\<close>

definition at_set :: "table \<Rightarrow> nat \<Rightarrow> string \<Rightarrow> cell \<Rightarrow> table" where
  "at_set T idx c v =
     (if c \<in> set (columns T)
      then T\<lparr>rows := (rows T)[idx := (rows T ! idx)(c := v)]\<rparr>
      else \<lparr>columns = columns T @ [c],
            rows = (map (\<lambda>r. r(c := PyNaN)) (rows T))[idx := (rows T ! idx)(c := v)]\<rparr>)"

text \<open>\<^verbatim>\<open>df.loc[empty_indices, column] = None\<close> for a column of the frame.\<close>

definition loc_set_none :: "table \<Rightarrow> nat list \<Rightarrow> string \<Rightarrow> table" where
  "loc_set_none T empty_indices c =
     T\<lparr>rows := map (\<lambda>(i, r). if i \<in> set empty_indices then r(c := PyNone) else r)
                   (enumerate 0 (rows T))\<rparr>"

text \<open>
  \<^verbatim>\<open>df[col] = df[col].astype(str)\<close>: a KeyError when the column does not exist; every
  element becomes its string, the missing markers included.
\<close>

definition astype_str :: "pylib \<Rightarrow> table \<Rightarrow> string \<Rightarrow> table option" where
  "astype_str L T c =
     (if c \<in> set (columns T)
      then Some (T\<lparr>rows := map (\<lambda>r. r(c := PyStr (py_str L (r c)))) (rows T)\<rparr>)
      else None)"

text \<open>
  Lines 203 to 213: the columns and the row count are those of the caller's frame.
  \<^verbatim>\<open>num_rows * self.max_empty_percentage\<close> is a float multiplication (the row count is
  converted, exactly for a frame of fewer than \<open>2\<^sup>5\<^sup>3\<close> rows), and \<^verbatim>\<open>int\<close> truncates its
  rounded result.
\<close>

fun inject_missing ::
  "pylib \<Rightarrow> string list \<Rightarrow> nat \<Rightarrow> table \<times> generator \<Rightarrow> (table \<times> generator) option" where
  "inject_missing L [] num_rows TG = Some TG"
| "inject_missing L (column # cs) num_rows (T, G) =
     (if column \<noteq> ''ride_id'' \<and> column \<noteq> ''start_station_id'' \<and> column \<noteq> ''end_station_id''
      then do {
        let num_empty = trunc (float_mul L (real num_rows) (max_empty_percentage G));
        (empty_indices, g') \<leftarrow> sample_range num_rows num_empty (rng G);
        inject_missing L cs num_rows (loc_set_none T empty_indices column, G\<lparr>rng := g'\<rparr>)
      }
      else inject_missing L cs num_rows (T, G))"

text \<open>The body of the loop of line 223, stage by stage.\<close>

definition ride_id_stage :: "pylib \<Rightarrow> nat \<Rightarrow> table \<times> generator \<Rightarrow> (table \<times> generator) option" where
  "ride_id_stage L idx TG =
     (case TG of (T, G) \<Rightarrow>
        do {
          v \<leftarrow> at_get T idx ''ride_id'';
          (v', G') \<leftarrow> modify_ride_id L v G;
          Some (at_set T idx ''ride_id'' v', G')
        })"

definition rideable_stage :: "nat \<Rightarrow> table \<times> generator \<Rightarrow> (table \<times> generator) option" where
  "rideable_stage idx TG =
     (case TG of (T, G) \<Rightarrow>
        do {
          v \<leftarrow> at_get T idx ''rideable_type'';
          if notna v
          then do {
            (v', G') \<leftarrow> modify_rideable_type v G;
            Some (at_set T idx ''rideable_type'' v', G')
          }
          else Some (T, G)
        })"

definition datetime_stage :: "pylib \<Rightarrow> nat \<Rightarrow> table \<times> generator \<Rightarrow> (table \<times> generator) option" where
  "datetime_stage L idx TG =
     (case TG of (T, G) \<Rightarrow>
        do {
          s \<leftarrow> at_get T idx ''started_at'';
          if notna s
          then do {
            e \<leftarrow> at_get T idx ''ended_at'';
            if notna e
            then do {
              ((start_dt, end_dt), G') \<leftarrow> modify_datetime L s e G;
              Some (at_set (at_set T idx ''started_at'' start_dt) idx ''ended_at'' end_dt, G')
            }
            else Some (T, G)
          }
          else Some (T, G)
        })"

definition station_stage ::
  "pylib \<Rightarrow> string \<Rightarrow> string \<Rightarrow> nat \<Rightarrow> table \<times> generator \<Rightarrow> (table \<times> generator) option" where
  "station_stage L name_col id_col idx TG =
     (case TG of (T, G) \<Rightarrow>
        do {
          n \<leftarrow> at_get T idx name_col;
          if notna n
          then do {
            i \<leftarrow> at_get T idx id_col;
            ((name, station_id), G') \<leftarrow> modify_station_name L n i G;
            Some (at_set (at_set T idx name_col name) idx id_col station_id, G')
          }
          else Some (T, G)
        })"

text \<open>
  Lines 258 to 276: the station name and id are read from the frame again, after the
  station stage has written to them.
\<close>

definition coordinate_stage ::
  "pylib \<Rightarrow> string \<Rightarrow> string \<Rightarrow> string \<Rightarrow> string \<Rightarrow> nat \<Rightarrow> table \<times> generator \<Rightarrow>
   (table \<times> generator) option" where
  "coordinate_stage L lat_col lng_col name_col id_col idx TG =
     (case TG of (T, G) \<Rightarrow>
        do {
          la \<leftarrow> at_get T idx lat_col;
          if notna la
          then do {
            ln \<leftarrow> at_get T idx lng_col;
            n \<leftarrow> at_get T idx name_col;
            i \<leftarrow> at_get T idx id_col;
            ((lat, lng), G') \<leftarrow> modify_coordinates L la ln n i G;
            Some (at_set (at_set T idx lat_col lat) idx lng_col lng, G')
          }
          else Some (T, G)
        })"

definition member_stage :: "pylib \<Rightarrow> nat \<Rightarrow> table \<times> generator \<Rightarrow> (table \<times> generator) option" where
  "member_stage L idx TG =
     (case TG of (T, G) \<Rightarrow>
        do {
          v \<leftarrow> at_get T idx ''member_casual'';
          if notna v
          then do {
            (v', G') \<leftarrow> modify_member_type L v G;
            Some (at_set T idx ''member_casual'' v', G')
          }
          else Some (T, G)
        })"

definition row_step :: "pylib \<Rightarrow> nat \<Rightarrow> table \<times> generator \<Rightarrow> (table \<times> generator) option" where
  "row_step L idx TG =
     do {
       TG1 \<leftarrow> ride_id_stage L idx TG;
       TG2 \<leftarrow> rideable_stage idx TG1;
       TG3 \<leftarrow> datetime_stage L idx TG2;
       TG4 \<leftarrow> station_stage L ''start_station_name'' ''start_station_id'' idx TG3;
       TG5 \<leftarrow> station_stage L ''end_station_name'' ''end_station_id'' idx TG4;
       TG6 \<leftarrow> coordinate_stage L ''start_lat'' ''start_lng''
                ''start_station_name'' ''start_station_id'' idx TG5;
       TG7 \<leftarrow> coordinate_stage L ''end_lat'' ''end_lng''
                ''end_station_name'' ''end_station_id'' idx TG6;
       member_stage L idx TG7
     }"

fun row_loop :: "pylib \<Rightarrow> nat list \<Rightarrow> table \<times> generator \<Rightarrow> (table \<times> generator) option" where
  "row_loop L [] TG = Some TG"
| "row_loop L (idx # idxs) TG = do { TG' \<leftarrow> row_step L idx TG; row_loop L idxs TG' }"

text \<open>
  Lines 202 to 282 on the copy \<open>df_with_errors\<close>; \<open>df\<close>, the caller's frame, is read for
  its columns and its length only.
\<close>

definition corrupt_table ::
  "pylib \<Rightarrow> table \<Rightarrow> table \<Rightarrow> generator \<Rightarrow> (table \<times> generator) option" where
  "corrupt_table L df df_with_errors G =
     do {
       (T1, G1) \<leftarrow> inject_missing L (columns df) (length (rows df)) (df_with_errors, G);
       T2 \<leftarrow> astype_str L T1 ''start_station_id'';
       T3 \<leftarrow> astype_str L T2 ''end_station_id'';
       row_loop L [0..<length (rows T3)] (T3, G1)
     }"

text \<open>
  Data frames are objects: a variable holds a reference. The store is the list of the
  frames allocated so far, a reference is a position in it. \<^verbatim>\<open>df.copy()\<close> (line 201, a
  deep copy) allocates a new frame; every later write goes to that frame, and its
  reference is what \<^verbatim>\<open>introduce_errors\<close> returns.
\<close>

type_synonym heap = "table list"

definition introduce_errors ::
  "pylib \<Rightarrow> nat \<Rightarrow> heap \<times> generator \<Rightarrow> (nat \<times> heap \<times> generator) option" where
  "introduce_errors L df hG =
     (case hG of (h, G) \<Rightarrow>
        if df < length h
        then (let df_with_errors = length h; h1 = h @ [h ! df] in
              do {
                (T, G') \<leftarrow> corrupt_table L (h1 ! df) (h1 ! df_with_errors) G;
                Some (df_with_errors, h1[df_with_errors := T], G')
              })
        else None)"

section \<open>A library instance for ASCII text\<close>

text \<open>
  The closed examples below need one concrete library. This one follows CPython on
  ASCII strings: \<^verbatim>\<open>strptime\<close> matches the regular expression that \<^verbatim>\<open>_strptime\<close> builds
  from the format (alternatives tried in order, a blank of the format matching one or
  more white-space characters, the first match taken and required to end the string),
  \<^verbatim>\<open>strftime\<close> pads with zeros, and the date arithmetic goes through the proleptic
  Gregorian ordinal as \<^verbatim>\<open>datetime.py\<close> does. \<^verbatim>\<open>int\<close> and \<^verbatim>\<open>float\<close> read signed decimal
  integers only, and a float is printed with one decimal place.
\<close>

datatype fmt_tok = Directive char | Literal char

fun fmt_toks :: "string \<Rightarrow> fmt_tok list" where
  "fmt_toks [] = []"
| "fmt_toks [c] = [Literal c]"
| "fmt_toks (c # d # cs) =
     (if c = CHR ''%'' then Directive d # fmt_toks cs else Literal c # fmt_toks (d # cs))"

definition is_ws :: "char \<Rightarrow> bool" where
  "is_ws c = (c \<in> set [CHR '' '', CHR 0x09, CHR 0x0A, CHR 0x0B, CHR 0x0C, CHR 0x0D])"

definition dig :: string where
  "dig = ''0123456789''"

definition dig1 :: string where
  "dig1 = ''123456789''"

text \<open>The alternatives of a directive, each a sequence of character classes.\<close>

definition dir_alts :: "char \<Rightarrow> string list list" where
  "dir_alts d =
     (if d = CHR ''Y'' then [[dig, dig, dig, dig]]
      else if d = CHR ''m'' then [[''1'', ''012''], [''0'', dig1], [dig1]]
      else if d = CHR ''d'' then [[''3'', ''01''], [''12'', dig], [''0'', dig1], [dig1], ['' '', dig1]]
      else if d = CHR ''H'' then [[''2'', ''0123''], [''01'', dig], [dig]]
      else if d = CHR ''M'' then [[''012345'', dig], [dig]]
      else if d = CHR ''S'' then [[''6'', ''01''], [''012345'', dig], [dig]]
      else [])"

fun match_classes :: "string list \<Rightarrow> string \<Rightarrow> (string \<times> string) option" where
  "match_classes [] s = Some ([], s)"
| "match_classes (cl # cls) [] = None"
| "match_classes (cl # cls) (c # cs) =
     (if c \<in> set cl then map_option (\<lambda>(m, r). (c # m, r)) (match_classes cls cs) else None)"

text \<open>All matches of the token sequence against a prefix of the string, in the order
  in which a backtracking matcher finds them, each with the text of its fields and the
  rest of the string.\<close>

fun match_toks :: "fmt_tok list \<Rightarrow> string \<Rightarrow> ((char \<times> string) list \<times> string) list" where
  "match_toks [] s = [([], s)]"
| "match_toks (Literal c # ts) s =
     (if is_ws c
      then concat (map (\<lambda>k. match_toks ts (drop k s)) (rev [1..<Suc (length (takeWhile is_ws s))]))
      else (case s of [] \<Rightarrow> [] | x # xs \<Rightarrow> if x = c then match_toks ts xs else []))"
| "match_toks (Directive d # ts) s =
     concat (map (\<lambda>a. case match_classes a s of
                         None \<Rightarrow> []
                       | Some (m, r) \<Rightarrow> map (\<lambda>(fs, r'). ((d, m) # fs, r')) (match_toks ts r))
                 (dir_alts d))"

definition digit_val :: "char \<Rightarrow> nat" where
  "digit_val c = length (takeWhile (\<lambda>d. d \<noteq> c) dig)"

definition digits_val :: "string \<Rightarrow> nat" where
  "digits_val s = foldl (\<lambda>n c. 10 * n + digit_val c) 0 (filter (\<lambda>c. c \<noteq> CHR '' '') s)"

definition is_leap :: "nat \<Rightarrow> bool" where
  "is_leap y = (y mod 4 = 0 \<and> (y mod 100 \<noteq> 0 \<or> y mod 400 = 0))"

definition days_in_month :: "bool \<Rightarrow> nat \<Rightarrow> nat" where
  "days_in_month leap m =
     (if m = 2 \<and> leap then 29 else [0, 31, 28, 31, 30, 31, 30, 31, 31, 30, 31, 30, 31] ! m)"

definition days_before_month :: "bool \<Rightarrow> nat \<Rightarrow> nat" where
  "days_before_month leap m =
     [0, 0, 31, 59, 90, 120, 151, 181, 212, 243, 273, 304, 334] ! m + (if 2 < m \<and> leap then 1 else 0)"

definition make_datetime :: "nat \<Rightarrow> nat \<Rightarrow> nat \<Rightarrow> nat \<Rightarrow> nat \<Rightarrow> nat \<Rightarrow> datetime option" where
  "make_datetime y m d h mi s =
     (if 1 \<le> y \<and> y \<le> 9999 \<and> 1 \<le> m \<and> m \<le> 12 \<and> 1 \<le> d \<and> d \<le> days_in_month (is_leap y) m
         \<and> h \<le> 23 \<and> mi \<le> 59 \<and> s \<le> 59
      then Some \<lparr>year = y, month = m, day = d, hour = h, minute = mi, second = s\<rparr>
      else None)"

definition field :: "(char \<times> string) list \<Rightarrow> char \<Rightarrow> nat \<Rightarrow> nat" where
  "field fs d dflt = (case map_of fs d of None \<Rightarrow> dflt | Some m \<Rightarrow> digits_val m)"

definition ascii_strptime :: "string \<Rightarrow> string \<Rightarrow> datetime option" where
  "ascii_strptime s fmt =
     (case match_toks (fmt_toks fmt) s of
        [] \<Rightarrow> None
      | (fs, r) # other \<Rightarrow>
          if r \<noteq> [] then None
          else make_datetime (field fs (CHR ''Y'') 1900) (field fs (CHR ''m'') 1)
                 (field fs (CHR ''d'') 1) (field fs (CHR ''H'') 0) (field fs (CHR ''M'') 0)
                 (field fs (CHR ''S'') 0))"

definition pad :: "nat \<Rightarrow> nat \<Rightarrow> string" where
  "pad w n = replicate (w - length (nat_str n)) (CHR ''0'') @ nat_str n"

definition fmt_out :: "datetime \<Rightarrow> fmt_tok \<Rightarrow> string" where
  "fmt_out dt t =
     (case t of
        Literal c \<Rightarrow> [c]
      | Directive d \<Rightarrow>
          if d = CHR ''Y'' then pad 4 (year dt)
          else if d = CHR ''m'' then pad 2 (month dt)
          else if d = CHR ''d'' then pad 2 (day dt)
          else if d = CHR ''H'' then pad 2 (hour dt)
          else if d = CHR ''M'' then pad 2 (minute dt)
          else if d = CHR ''S'' then pad 2 (second dt)
          else [CHR ''%'', d])"

definition ascii_strftime :: "datetime \<Rightarrow> string \<Rightarrow> string" where
  "ascii_strftime dt fmt = concat (map (fmt_out dt) (fmt_toks fmt))"

definition days_before_year :: "nat \<Rightarrow> nat" where
  "days_before_year y = (y - 1) * 365 + (y - 1) div 4 - (y - 1) div 100 + (y - 1) div 400"

definition to_ordinal :: "datetime \<Rightarrow> nat" where
  "to_ordinal dt = days_before_year (year dt) + days_before_month (is_leap (year dt)) (month dt) + day dt"

text \<open>\<^verbatim>\<open>_ord2ymd\<close> of \<^verbatim>\<open>datetime.py\<close>, for an ordinal of at least 1.\<close>

definition ord2ymd :: "nat \<Rightarrow> nat \<times> nat \<times> nat" where
  "ord2ymd ordinal =
     (let n0 = ordinal - 1;
          n400 = n0 div 146097; na = n0 mod 146097;
          n100 = na div 36524; nb = na mod 36524;
          n4 = nb div 1461; nc = nb mod 1461;
          n1 = nc div 365; n = nc mod 365;
          y = n400 * 400 + 1 + n100 * 100 + n4 * 4 + n1
      in if n1 = 4 \<or> n100 = 4 then (y - 1, 12, 31)
         else (let leapyear = (n1 = 3 \<and> (n4 \<noteq> 24 \<or> n100 = 3));
                   m = (n + 50) div 32;
                   preceding = days_before_month leapyear m
               in if n < preceding
                  then (y, m - 1, n + 1 - (preceding - days_in_month leapyear (m - 1)))
                  else (y, m, n + 1 - preceding)))"

definition ascii_dt_minus :: "datetime \<Rightarrow> int \<Rightarrow> datetime option" where
  "ascii_dt_minus dt delta =
     (let total = (int (to_ordinal dt)) * 86400 + int (hour dt * 3600 + minute dt * 60 + second dt)
                  - delta;
          days = total div 86400;
          secs = nat (total mod 86400)
      in if 0 < days \<and> days \<le> 3652059
         then (case ord2ymd (nat days) of (y, m, d) \<Rightarrow>
                 Some \<lparr>year = y, month = m, day = d, hour = secs div 3600,
                       minute = secs mod 3600 div 60, second = secs mod 60\<rparr>)
         else None)"

definition lower_letters :: string where
  "lower_letters = ''abcdefghijklmnopqrstuvwxyz''"

definition upper_letters :: string where
  "upper_letters = ''ABCDEFGHIJKLMNOPQRSTUVWXYZ''"

definition upper_char :: "char \<Rightarrow> char" where
  "upper_char c = (case map_of (zip lower_letters upper_letters) c of None \<Rightarrow> c | Some u \<Rightarrow> u)"

definition lower_char :: "char \<Rightarrow> char" where
  "lower_char c = (case map_of (zip upper_letters lower_letters) c of None \<Rightarrow> c | Some l \<Rightarrow> l)"

text \<open>\<^verbatim>\<open>str.title\<close>: a letter is upper-cased after a character that is no letter, and
  lower-cased after a letter.\<close>

fun title_from :: "bool \<Rightarrow> string \<Rightarrow> string" where
  "title_from prev [] = []"
| "title_from prev (c # cs) =
     (if c \<in> set lower_letters \<or> c \<in> set upper_letters
      then (if prev then lower_char c else upper_char c) # title_from True cs
      else c # title_from False cs)"

text \<open>\<^verbatim>\<open>re.sub(r'\s+', '  ', name)\<close>: every run of white space becomes two blanks.\<close>

fun sub_ws_from :: "bool \<Rightarrow> string \<Rightarrow> string" where
  "sub_ws_from in_run [] = []"
| "sub_ws_from in_run (c # cs) =
     (if is_ws c then (if in_run then [] else ''  '') @ sub_ws_from True cs
      else c # sub_ws_from False cs)"

definition ascii_int_of_str :: "string \<Rightarrow> int option" where
  "ascii_int_of_str s =
     (let body = (case s of [] \<Rightarrow> [] | c # cs \<Rightarrow> if c = CHR ''-'' \<or> c = CHR ''+'' then cs else s)
      in if body \<noteq> [] \<and> list_all (\<lambda>c. c \<in> set dig) body
         then Some (if hd s = CHR ''-'' then - int (digits_val body) else int (digits_val body))
         else None)"

definition ascii_str_of_float :: "real \<Rightarrow> string" where
  "ascii_str_of_float x =
     (if x < 0 then ''-'' else []) @ nat_str (nat \<lfloor>\<bar>x\<bar>\<rfloor>) @ ''.''
       @ nat_str (nat \<lfloor>(\<bar>x\<bar> - of_int \<lfloor>\<bar>x\<bar>\<rfloor>) * 10\<rfloor>)"

text \<open>
  The floats are the binary64 numbers, and an arithmetic operation on them returns the
  float nearest to the exact result, the one with the even significand when two are
  equally near. \<open>exponent y\<close> is \<open>\<lfloor>log\<^sub>2 y\<rfloor>\<close> for a positive \<open>y\<close>; 53 bits of the result are
  kept. (The ends of the exponent range, where a result overflows or loses bits, are
  far from the coordinates and row counts of a trip table and are left out.)
\<close>

definition round_half_even :: "real \<Rightarrow> int" where
  "round_half_even x =
     (let n = \<lfloor>x\<rfloor>; r = x - of_int n
      in if r < 1 / 2 then n else if 1 / 2 < r then n + 1 else if even n then n else n + 1)"

fun bit_length :: "nat \<Rightarrow> nat" where
  "bit_length n = (if n = 0 then 0 else Suc (bit_length (n div 2)))"

declare bit_length.simps [simp del]

definition exponent :: "real \<Rightarrow> int" where
  "exponent y =
     (if 1 \<le> y then int (bit_length (nat \<lfloor>y\<rfloor>)) - 1
      else - int (bit_length (nat (\<lceil>1 / y\<rceil> - 1))))"

definition binary64 :: "real \<Rightarrow> real" where
  "binary64 x =
     (if x = 0 then 0
      else let e = exponent \<bar>x\<bar> - 52
           in of_int (round_half_even (x / 2 powi e)) * 2 powi e)"

definition ascii_lib :: pylib where
  "ascii_lib =
     \<lparr>strptime = ascii_strptime, strftime = ascii_strftime, dt_minus = ascii_dt_minus,
      str_title = title_from False, str_upper = map upper_char, str_lower = map lower_char,
      re_sub_ws = sub_ws_from False,
      float_of_str = (\<lambda>s. map_option of_int (ascii_int_of_str s)),
      int_of_str = ascii_int_of_str, str_of_float = ascii_str_of_float,
      float_add = (\<lambda>x y. binary64 (x + y)), float_mul = (\<lambda>x y. binary64 (x * y))\<rparr>"


text \<open>The number a present, numeric coordinate cell stands for.\<close>

fun cell_num :: "cell \<Rightarrow> real option" where
  "cell_num (PyInt i) = Some (real_of_int i)"
| "cell_num (PyFloat x) = Some x"
| "cell_num c = None"

text \<open>The pairs of variations that lines 122 and 123 draw in \<open>k\<close> rounds of the loop.\<close>

fun variations :: "nat \<Rightarrow> rng \<Rightarrow> (real \<times> real) list" where
  "variations 0 g = []"
| "variations (Suc k) g =
     (case uniform (- 1) 1 g of (lat_variation, g1) \<Rightarrow>
      case uniform (- 1) 1 g1 of (lng_variation, g2) \<Rightarrow>
        (lat_variation, lng_variation) # variations k g2)"



section \<open>A sample frame\<close>

text \<open>
  One trip with the columns of the bike-share export that \<^verbatim>\<open>main\<close> reads; the id of
  its start station is missing. The first generator draws \<open>2\<^sup>5\<^sup>3 - 1\<close> forever, so that
  no probability test succeeds; the second draws 0 once, so that only the first test of
  \<^verbatim>\<open>_modify_ride_id\<close> succeeds.
\<close>

definition trip_columns :: "string list" where
  "trip_columns =
     [''ride_id'', ''rideable_type'', ''started_at'', ''ended_at'', ''start_station_name'',
      ''start_station_id'', ''end_station_name'', ''end_station_id'', ''start_lat'',
      ''start_lng'', ''end_lat'', ''end_lng'', ''member_casual'']"

definition trip_row :: "string \<Rightarrow> cell" where
  "trip_row =
     (\<lambda>c. PyNaN)
       (''ride_id'' := PyStr ''AB12'', ''rideable_type'' := PyStr ''classic_bike'',
        ''started_at'' := PyStr ''2024-03-15 10:00:00'', ''ended_at'' := PyStr ''2024-03-15 10:30:00'',
        ''start_station_name'' := PyStr ''a st'', ''start_station_id'' := PyNaN,
        ''end_station_name'' := PyStr ''b st'', ''end_station_id'' := PyStr ''TA13'',
        ''start_lat'' := PyFloat 10, ''start_lng'' := PyFloat 20,
        ''end_lat'' := PyFloat 11, ''end_lng'' := PyFloat 21,
        ''member_casual'' := PyStr ''member'')"

definition trip_table :: table where
  "trip_table = \<lparr>columns = trip_columns, rows = [trip_row]\<rparr>"

definition quiet_generator :: generator where
  "quiet_generator = new_generator (15 / 100) (3 / 100) (sconst 9007199254740991)"

definition spacing_generator :: generator where
  "spacing_generator = new_generator (15 / 100) (3 / 100) (0 ## sconst 9007199254740991)"

text \<open>
  Three trips of which only the start station is known: one from \<^verbatim>\<open>'a st'\<close> at
  (10, 20), one from \<^verbatim>\<open>'A St'\<close> at (30, 40), and one from \<^verbatim>\<open>'a st'\<close> again, at (30, 40).
  The generator below draws 0, 0, 1 and then 0 forever: every probability test
  succeeds, and the first \<^verbatim>\<open>random.choice\<close>, the one among the name variants of the
  first trip, takes the second variant.
\<close>

definition lone_row :: "string \<Rightarrow> cell" where
  "lone_row =
     (\<lambda>c. PyNaN)
       (''start_station_name'' := PyStr ''a st'', ''start_station_id'' := PyStr ''TA13'',
        ''start_lat'' := PyFloat 10, ''start_lng'' := PyFloat 20)"

definition second_row :: "string \<Rightarrow> cell" where
  "second_row =
     (\<lambda>c. PyNaN)
       (''start_station_name'' := PyStr ''A St'', ''start_station_id'' := PyStr ''TA13'',
        ''start_lat'' := PyFloat 30, ''start_lng'' := PyFloat 40)"

definition return_row :: "string \<Rightarrow> cell" where
  "return_row =
     (\<lambda>c. PyNaN)
       (''start_station_name'' := PyStr ''a st'', ''start_station_id'' := PyStr ''TA13'',
        ''start_lat'' := PyFloat 30, ''start_lng'' := PyFloat 40)"

definition lone_table :: table where
  "lone_table = \<lparr>columns = trip_columns, rows = [lone_row]\<rparr>"

definition pair_table :: table where
  "pair_table = \<lparr>columns = trip_columns, rows = [lone_row, second_row]\<rparr>"

definition same_name_table :: table where
  "same_name_table = \<lparr>columns = trip_columns, rows = [lone_row, return_row]\<rparr>"

definition renaming_generator :: generator where
  "renaming_generator = new_generator (15 / 100) (3 / 100) ([0, 0, 1] @- sconst 0)"

text \<open>
  The generator after the name and id mutator has handled the first of these trips,
  and after the coordinate mutator has.
\<close>

definition a_st_variants :: variants where
  "a_st_variants =
     \<lparr>names = [PyStr ''a st'', PyStr ''A St'', PyStr ''A ST'', PyStr ''a st'', PyStr ''a  st''],
      ids = [PyStr ''TA13''], coordinates = [(PyNone, PyNone)]\<rparr>"

definition A_St_variants :: variants where
  "A_St_variants =
     \<lparr>names = [PyStr ''A St'', PyStr ''A St'', PyStr ''A ST'', PyStr ''A St'', PyStr ''A  St''],
      ids = [PyStr ''TA13''],
      coordinates = [(PyFloat 9, PyFloat 19), (PyFloat 9, PyFloat 19), (PyFloat 9, PyFloat 19)]\<rparr>"

definition renamed_generator :: generator where
  "renamed_generator =
     \<lparr>error_prob = 15 / 100, max_empty_percentage = 3 / 100,
      station_variants = [''a st'' \<mapsto> a_st_variants], rng = sconst 0\<rparr>"

definition jittered_generator :: generator where
  "jittered_generator =
     \<lparr>error_prob = 15 / 100, max_empty_percentage = 3 / 100,
      station_variants = [''a st'' \<mapsto> a_st_variants, ''A St'' \<mapsto> A_St_variants],
      rng = sconst 0\<rparr>"


definition float_below_16 :: real where
  "float_below_16 = - 9007199254740991 / 562949953421312"

section \<open>Facts about the random source and the library instance\<close>

lemma sie_registry:
  "should_introduce_error G = (b, G') \<Longrightarrow> station_variants G' = station_variants G"
  by (auto simp: should_introduce_error_def split: prod.splits)

lemma gen_choice_Some:
  "gen_choice xs G = Some (x, G') \<Longrightarrow> x \<in> set xs \<and> station_variants G' = station_variants G"
  by (auto simp: gen_choice_def choice_def split: if_splits)

lemma gen_choice_total:
  "xs \<noteq> [] \<Longrightarrow> \<exists>x G'. gen_choice xs G = Some (x, G')"
  by (simp add: gen_choice_def choice_def)

lemma lib_fields:
  "strptime ascii_lib = ascii_strptime"
  "strftime ascii_lib = ascii_strftime"
  "str_title ascii_lib = title_from False"
  "str_upper ascii_lib = map upper_char"
  "re_sub_ws ascii_lib = sub_ws_from False"
  "float_of_str ascii_lib = (\<lambda>s. map_option of_int (ascii_int_of_str s))"
  "int_of_str ascii_lib = ascii_int_of_str"
  by (simp_all add: ascii_lib_def)


lemma lib_parse_start:
  "parse_base ascii_lib (PyStr ''2024-03-15 10:00:00'') =
   Some \<lparr>year = 2024, month = 3, day = 15, hour = 10, minute = 0, second = 0\<rparr>"
  unfolding parse_base_def lib_fields by code_simp

lemma lib_parse_end:
  "parse_base ascii_lib (PyStr ''2024-03-15 10:30:00'') =
   Some \<lparr>year = 2024, month = 3, day = 15, hour = 10, minute = 30, second = 0\<rparr>"
  unfolding parse_base_def lib_fields by code_simp

lemma lib_minus_hour:
  "dt_minus ascii_lib \<lparr>year = 2024, month = 3, day = 15, hour = 10, minute = 0, second = 0\<rparr> 3600 =
   Some \<lparr>year = 2024, month = 3, day = 15, hour = 9, minute = 0, second = 0\<rparr>"
  by (simp add: ascii_lib_def ascii_dt_minus_def to_ordinal_def days_before_year_def
      days_before_month_def is_leap_def ord2ymd_def Let_def days_in_month_def)

lemma lib_format_base:
  "strftime ascii_lib \<lparr>year = 2024, month = 3, day = 15, hour = 9, minute = 0, second = 0\<rparr>
     base_datetime_format = ''2024-03-15 09:00:00''"
  unfolding lib_fields by code_simp

lemma lib_format_slash_start:
  "strftime ascii_lib \<lparr>year = 2024, month = 3, day = 15, hour = 10, minute = 0, second = 0\<rparr>
     ''%Y/%m/%d %H:%M:%S'' = ''2024/03/15 10:00:00''"
  unfolding lib_fields by code_simp

lemma lib_format_slash_end:
  "strftime ascii_lib \<lparr>year = 2024, month = 3, day = 15, hour = 10, minute = 30, second = 0\<rparr>
     ''%Y/%m/%d %H:%M:%S'' = ''2024/03/15 10:30:00''"
  unfolding lib_fields by code_simp

lemma lib_parse_slash: "parse_base ascii_lib (PyStr ''2024/03/15 10:00:00'') = None"
  unfolding parse_base_def lib_fields by code_simp

lemmas datetime_eval =
  modify_datetime_def isna_def should_introduce_error_def random_random_def
  new_generator_def format_datetime_def gen_choice_def choice_def date_formats_def randint_def
  draw_time_difference_def

lemmas float_eval =
  ascii_lib_def binary64_def exponent_def round_half_even_def bit_length.simps Let_def
  power_int_minus

lemma lib_add_lat: "float_add ascii_lib 10 (- 1) = 9"
  by (simp add: float_eval)

lemma lib_add_lng: "float_add ascii_lib 20 (- 1) = 19"
  by (simp add: float_eval)

lemma lib_add_below_16: "float_add ascii_lib float_below_16 (- 1) = - 17"
  by (simp add: float_eval float_below_16_def)

lemma lib_add_zero: "float_add ascii_lib 10 0 = 10" "float_add ascii_lib 20 0 = 20"
  by (simp_all add: float_eval)

lemma lib_no_empty_1: "trunc (float_mul ascii_lib 1 (3 / 100)) = 0"
  by (simp add: float_eval trunc_def)

lemma lib_no_empty_2: "trunc (float_mul ascii_lib 2 (3 / 100)) = 0"
  by (simp add: float_eval trunc_def)


text \<open>
  The float product is not the product of the reals: \<^verbatim>\<open>int(3 * 0.3333333333333333)\<close> is
  1, and \<^verbatim>\<open>int(100 * 0.29)\<close> is 28.
\<close>

lemma lib_rounded_products:
  "trunc (float_mul ascii_lib 3 (6004799503160661 / 18014398509481984)) = 1"
  "trunc (3 * (6004799503160661 / 18014398509481984)) = 0"
  "trunc (float_mul ascii_lib 100 (5224175567749775 / 18014398509481984)) = 28"
  by (simp_all add: float_eval trunc_def)



section \<open>The temporal mutator\<close>


lemma format_datetime_total:
  "\<exists>c' G'. format_datetime L c G = Some (c', G') \<and> station_variants G' = station_variants G
     \<and> (c' = c \<or> (\<exists>dt f. parse_base L c = Some dt \<and> f \<in> set date_formats
                        \<and> c' = PyStr (strftime L dt f)))"
proof (cases "parse_base L c")
  case None
  then show ?thesis by (simp add: format_datetime_def)
next
  case (Some dt)
  obtain f G' where f: "gen_choice date_formats G = Some (f, G')"
    using gen_choice_total [of date_formats G] by (auto simp: date_formats_def)
  with Some gen_choice_Some [OF f] show ?thesis
    by (auto simp: format_datetime_def)
qed







text \<open>
  C3. With every draw 0 both tests of \<^verbatim>\<open>_modify_datetime\<close> succeed. Line 90 has then
  replaced \<^verbatim>\<open>start_dt\<close> by its reformatted text, line 95 parses that text under the
  base format, the ValueError is swallowed by line 104, and the end timestamp is the
  reformatted end: later than the start and not in the base format. When the first
  test fails and the second succeeds (first draw \<open>2\<^sup>5\<^sup>3 - 1\<close>), the same row gets the
  end the specification describes.
\<close>

theorem end_before_start_lost_after_reformat:
  "map_option fst
     (modify_datetime ascii_lib (PyStr ''2024-03-15 10:00:00'') (PyStr ''2024-03-15 10:30:00'')
        (new_generator (15 / 100) (3 / 100) (sconst 0)))
     = Some (PyStr ''2024/03/15 10:00:00'', PyStr ''2024/03/15 10:30:00'')
   \<and> map_option fst
     (modify_datetime ascii_lib (PyStr ''2024-03-15 10:00:00'') (PyStr ''2024-03-15 10:30:00'')
        (new_generator (15 / 100) (3 / 100) (9007199254740991 ## sconst 0)))
     = Some (PyStr ''2024-03-15 10:00:00'', PyStr ''2024-03-15 09:00:00'')"
  by (simp add: datetime_eval lib_parse_start lib_parse_end lib_format_slash_start
      lib_format_slash_end lib_parse_slash lib_minus_hour lib_format_base)

section \<open>The registry only grows\<close>

lemma get_cached:
  "station_variants G n = Some v \<Longrightarrow> get_station_variants L (PyStr n) i la lg G = Some (v, G)"
  by (simp add: get_station_variants_def isna_def)

lemma get_registers:
  assumes "get_station_variants L (PyStr n) i la lg G = Some (v, G')"
  shows "station_variants G' n = Some v \<and> station_variants G \<subseteq>\<^sub>m station_variants G'"
proof (cases "station_variants G n")
  case None
  then show ?thesis using assms
    by (auto simp: get_station_variants_def isna_def map_le_def Let_def
             split: prod.splits bind_splits if_splits)
next
  case (Some w)
  then show ?thesis using assms by (simp add: get_cached)
qed

lemma get_le:
  assumes "get_station_variants L name i la lg G = Some (v, G')"
  shows "station_variants G \<subseteq>\<^sub>m station_variants G'"
proof (cases name)
  case (PyStr n)
  then show ?thesis using assms get_registers by blast
qed (use assms in \<open>auto simp: get_station_variants_def isna_def Let_def split: prod.splits bind_splits if_splits\<close>)

lemma modify_station_name_le:
  "modify_station_name L name i G = Some (r, G') \<Longrightarrow> station_variants G \<subseteq>\<^sub>m station_variants G'"
  by (auto simp: modify_station_name_def split: if_splits prod.splits bind_splits
           dest!: get_le gen_choice_Some sie_registry)

lemma modify_coordinates_le:
  "modify_coordinates L la lg name i G = Some (r, G') \<Longrightarrow> station_variants G \<subseteq>\<^sub>m station_variants G'"
  by (auto simp: modify_coordinates_def split: if_splits prod.splits bind_splits
           dest!: get_le gen_choice_Some sie_registry)

lemma modify_ride_id_registry:
  "modify_ride_id L v G = Some (r, G') \<Longrightarrow> station_variants G' = station_variants G"
  by (auto simp: modify_ride_id_def split: if_splits prod.splits bind_splits cell.splits
           dest!: sie_registry)

lemma modify_rideable_type_registry:
  "modify_rideable_type v G = Some (r, G') \<Longrightarrow> station_variants G' = station_variants G"
  by (auto simp: modify_rideable_type_def split: if_splits prod.splits bind_splits cell.splits option.splits
           dest!: sie_registry gen_choice_Some)

lemma modify_member_type_registry:
  "modify_member_type L v G = Some (r, G') \<Longrightarrow> station_variants G' = station_variants G"
  by (auto simp: modify_member_type_def split: if_splits prod.splits bind_splits cell.splits option.splits
           dest!: sie_registry gen_choice_Some)

lemma format_datetime_registry:
  "format_datetime L c G = Some (c', G') \<Longrightarrow> station_variants G' = station_variants G"
  using format_datetime_total [of L c G] by auto

lemma modify_datetime_registry:
  "modify_datetime L s e G = Some (r, G') \<Longrightarrow> station_variants G' = station_variants G"
  by (auto simp: modify_datetime_def split: if_splits prod.splits bind_splits option.splits
           dest!: sie_registry format_datetime_registry)

section \<open>The shape of the frame and the registry along a run\<close>

lemma at_get_col: "at_get T idx c = Some v \<Longrightarrow> c \<in> set (columns T) \<and> idx < length (rows T)"
  by (simp add: at_get_def split: if_splits)

lemma at_set_shape:
  "c \<in> set (columns T) \<Longrightarrow>
   columns (at_set T idx c v) = columns T \<and> length (rows (at_set T idx c v)) = length (rows T)"
  by (simp add: at_set_def)

lemma ride_id_stage_inv:
  "ride_id_stage L idx (T, G) = Some (T', G') \<Longrightarrow>
   columns T' = columns T \<and> length (rows T') = length (rows T)
   \<and> station_variants G \<subseteq>\<^sub>m station_variants G'"
  by (auto simp: ride_id_stage_def at_set_shape split: bind_splits
           dest!: at_get_col modify_ride_id_registry)

lemma rideable_stage_inv:
  "rideable_stage idx (T, G) = Some (T', G') \<Longrightarrow>
   columns T' = columns T \<and> length (rows T') = length (rows T)
   \<and> station_variants G \<subseteq>\<^sub>m station_variants G'"
  by (auto simp: rideable_stage_def at_set_shape split: bind_splits if_splits
           dest!: at_get_col modify_rideable_type_registry)

lemma member_stage_inv:
  "member_stage L idx (T, G) = Some (T', G') \<Longrightarrow>
   columns T' = columns T \<and> length (rows T') = length (rows T)
   \<and> station_variants G \<subseteq>\<^sub>m station_variants G'"
  by (auto simp: member_stage_def at_set_shape split: bind_splits if_splits
           dest!: at_get_col modify_member_type_registry)

lemma datetime_stage_inv:
  "datetime_stage L idx (T, G) = Some (T', G') \<Longrightarrow>
   columns T' = columns T \<and> length (rows T') = length (rows T)
   \<and> station_variants G \<subseteq>\<^sub>m station_variants G'"
  by (auto simp: datetime_stage_def at_set_shape split: bind_splits if_splits
           dest!: at_get_col modify_datetime_registry)

lemma station_stage_inv:
  "station_stage L nc ic idx (T, G) = Some (T', G') \<Longrightarrow>
   columns T' = columns T \<and> length (rows T') = length (rows T)
   \<and> station_variants G \<subseteq>\<^sub>m station_variants G'"
  by (auto simp: station_stage_def at_set_shape split: bind_splits if_splits
           dest!: at_get_col modify_station_name_le)

lemma coordinate_stage_inv:
  "coordinate_stage L lac lgc nc ic idx (T, G) = Some (T', G') \<Longrightarrow>
   columns T' = columns T \<and> length (rows T') = length (rows T)
   \<and> station_variants G \<subseteq>\<^sub>m station_variants G'"
  by (auto simp: coordinate_stage_def at_set_shape split: bind_splits if_splits
           dest!: at_get_col modify_coordinates_le)


lemma row_step_inv:
  assumes "row_step L idx (T, G) = Some (T', G')"
  shows "columns T' = columns T \<and> length (rows T') = length (rows T)
   \<and> station_variants G \<subseteq>\<^sub>m station_variants G'"
proof -
  from assms obtain T1 G1 T2 G2 T3 G3 T4 G4 T5 G5 T6 G6 T7 G7 where
    s1: "ride_id_stage L idx (T, G) = Some (T1, G1)" and
    s2: "rideable_stage idx (T1, G1) = Some (T2, G2)" and
    s3: "datetime_stage L idx (T2, G2) = Some (T3, G3)" and
    s4: "station_stage L ''start_station_name'' ''start_station_id'' idx (T3, G3) = Some (T4, G4)" and
    s5: "station_stage L ''end_station_name'' ''end_station_id'' idx (T4, G4) = Some (T5, G5)" and
    s6: "coordinate_stage L ''start_lat'' ''start_lng'' ''start_station_name'' ''start_station_id''
           idx (T5, G5) = Some (T6, G6)" and
    s7: "coordinate_stage L ''end_lat'' ''end_lng'' ''end_station_name'' ''end_station_id''
           idx (T6, G6) = Some (T7, G7)" and
    s8: "member_stage L idx (T7, G7) = Some (T', G')"
    unfolding row_step_def by (auto split: bind_splits)
  note invs = ride_id_stage_inv [OF s1] rideable_stage_inv [OF s2] datetime_stage_inv [OF s3]
    station_stage_inv [OF s4] station_stage_inv [OF s5] coordinate_stage_inv [OF s6]
    coordinate_stage_inv [OF s7] member_stage_inv [OF s8]
  have "station_variants G \<subseteq>\<^sub>m station_variants G'"
    using invs by (blast intro: map_le_trans)
  with invs show ?thesis by simp
qed

lemma row_loop_inv:
  "row_loop L idxs (T, G) = Some (T', G') \<Longrightarrow>
   columns T' = columns T \<and> length (rows T') = length (rows T)
   \<and> station_variants G \<subseteq>\<^sub>m station_variants G'"
proof (induction idxs arbitrary: T G)
  case Nil
  then show ?case by simp
next
  case (Cons idx idxs)
  then obtain T1 G1 where st: "row_step L idx (T, G) = Some (T1, G1)"
    and rest: "row_loop L idxs (T1, G1) = Some (T', G')"
    by (auto split: bind_splits)
  from row_step_inv [OF st] Cons.IH [OF rest] show ?case
    by (auto intro: map_le_trans)
qed

lemma loc_set_none_shape:
  "columns (loc_set_none T ixs c) = columns T \<and> length (rows (loc_set_none T ixs c)) = length (rows T)"
  by (simp add: loc_set_none_def)

lemma inject_missing_inv:
  "inject_missing L cs n (T, G) = Some (T', G') \<Longrightarrow>
   columns T' = columns T \<and> length (rows T') = length (rows T)
   \<and> station_variants G' = station_variants G
   \<and> error_prob G' = error_prob G \<and> max_empty_percentage G' = max_empty_percentage G"
proof (induction cs arbitrary: T G)
  case Nil
  then show ?case by simp
next
  case (Cons c cs)
  show ?case
  proof (cases "c \<noteq> ''ride_id'' \<and> c \<noteq> ''start_station_id'' \<and> c \<noteq> ''end_station_id''")
    case True
    with Cons.prems obtain ixs g' where
      "inject_missing L cs n (loc_set_none T ixs c, G\<lparr>rng := g'\<rparr>) = Some (T', G')"
      by (auto simp: Let_def split: bind_splits)
    from Cons.IH [OF this] show ?thesis by (simp add: loc_set_none_shape)
  next
    case False
    with Cons.prems have "inject_missing L cs n (T, G) = Some (T', G')" by auto
    from Cons.IH [OF this] show ?thesis .
  qed
qed

lemma astype_str_shape:
  "astype_str L T c = Some T' \<Longrightarrow> columns T' = columns T \<and> length (rows T') = length (rows T)"
  by (auto simp: astype_str_def split: if_splits)

lemma corrupt_table_inv:
  assumes "corrupt_table L df dfe G = Some (T', G')"
  shows "columns T' = columns dfe \<and> length (rows T') = length (rows dfe)
   \<and> station_variants G \<subseteq>\<^sub>m station_variants G'"
proof -
  from assms obtain T1 G1 T2 T3 where
    a: "inject_missing L (columns df) (length (rows df)) (dfe, G) = Some (T1, G1)" and
    b: "astype_str L T1 ''start_station_id'' = Some T2" and
    c: "astype_str L T2 ''end_station_id'' = Some T3" and
    d: "row_loop L [0..<length (rows T3)] (T3, G1) = Some (T', G')"
    unfolding corrupt_table_def by (auto split: bind_splits)
  from inject_missing_inv [OF a] astype_str_shape [OF b] astype_str_shape [OF c] row_loop_inv [OF d]
  show ?thesis by simp
qed

lemma introduce_errors_inv:
  assumes "introduce_errors L df (h, G) = Some (r, h', G')"
  shows "columns (h' ! r) = columns (h ! df) \<and> length (rows (h' ! r)) = length (rows (h ! df))
   \<and> station_variants G \<subseteq>\<^sub>m station_variants G'
   \<and> r = length h \<and> length h' = Suc (length h) \<and> df < length h \<and> take (length h) h' = h"
proof -
  from assms have df: "df < length h"
    by (simp add: introduce_errors_def split: if_splits)
  with assms obtain T where
    c: "corrupt_table L (h ! df) (h ! df) G = Some (T, G')" and
    r: "r = length h" and h': "h' = (h @ [h ! df])[length h := T]"
    by (auto simp: introduce_errors_def Let_def nth_append split: bind_splits)
  from corrupt_table_inv [OF c] r h' df show ?thesis by simp
qed

section \<open>The variant sets of the registry\<close>

lemma random_random_range: "random_random g = (u, g') \<Longrightarrow> 0 \<le> u \<and> u < 1"
proof -
  assume a: "random_random g = (u, g')"
  have "shd g mod 2 ^ 53 < (2::nat) ^ 53" by simp
  then have "real (shd g mod 2 ^ 53) < 2 ^ 53"
    by (metis of_nat_less_iff of_nat_numeral of_nat_power)
  with a show ?thesis by (auto simp: random_random_def)
qed

lemma uniform_range: "uniform (- 1) 1 g = (x, g') \<Longrightarrow> - 1 \<le> x \<and> x < 1"
  by (auto simp: uniform_def split: prod.splits dest!: random_random_range)

lemma add_float_num:
  "cell_num c = Some a \<Longrightarrow> add_float L c u = Some (PyFloat (float_add L a u))"
  by (cases c) auto

lemma variations_range:
  "length (variations k g) = k
   \<and> (\<forall>(u, w) \<in> set (variations k g). - 1 \<le> u \<and> u < 1 \<and> - 1 \<le> w \<and> w < 1)"
proof (induction k arbitrary: g)
  case 0
  then show ?case by simp
next
  case (Suc k)
  obtain u g1 where u: "uniform (- 1) 1 g = (u, g1)" by force
  obtain w g2 where w: "uniform (- 1) 1 g1 = (w, g2)" by force
  have "variations (Suc k) g = (u, w) # variations k g2"
    using u w by simp
  with Suc [of g2] uniform_range [OF u] uniform_range [OF w] show ?case by simp
qed

lemma jitter_numeric:
  assumes "cell_num lat = Some a" and "cell_num lng = Some b"
  shows "\<exists>g'. jitter L k lat lng g =
           Some (map (\<lambda>(u, w). (PyFloat (float_add L a u), PyFloat (float_add L b w)))
                   (variations k g), g')"
proof (induction k arbitrary: g)
  case 0
  then show ?case by simp
next
  case (Suc k)
  obtain u g1 where u: "uniform (- 1) 1 g = (u, g1)" by force
  obtain w g2 where w: "uniform (- 1) 1 g1 = (w, g2)" by force
  from Suc [of g2] obtain g3 where
    r: "jitter L k lat lng g2 =
          Some (map (\<lambda>(u, w). (PyFloat (float_add L a u), PyFloat (float_add L b w)))
                  (variations k g2), g3)"
    by blast
  show ?case
    using u w r assms by (simp add: add_float_num)
qed

lemma randint_3_4: "randint 3 4 g = (n, g') \<Longrightarrow> n = 3 \<or> n = 4"
proof -
  assume a: "randint 3 4 g = (n, g')"
  have "shd g mod 2 = 0 \<or> shd g mod 2 = 1" by auto
  with a show ?thesis by (auto simp: randint_def)
qed

lemma cell_num_present: "cell_num c = Some a \<Longrightarrow> c \<noteq> PyNone \<and> \<not> isna c"
  by (cases c) (auto simp: isna_def)

text \<open>
  C7, as the code has it. When a name that is not yet registered is resolved with a
  latitude \<open>a\<close> and a longitude \<open>b\<close> that are both present numbers, the call returns and
  stores the coordinate variants under the name. With \<open>k\<close> the result of
  \<^verbatim>\<open>randint(3, 4)\<close>, which is 3 or 4, the variants are exactly the \<open>k\<close> points that the
  loop of lines 121 to 124 computes, in its order: the point of round \<open>j\<close> is
  \<^verbatim>\<open>(a + u, b + w)\<close> in float addition, with \<open>(u, w)\<close> the two variations drawn in round
  \<open>j\<close>, each of them in \<open>[-1, 1)\<close>. Nothing else is in the list: the original point
  is not put into it, and is among the variants only when the point of some round
  comes out equal to it.
\<close>

theorem coordinate_variants_are_jittered:
  assumes "station_variants G n = None" and "cell_num lat = Some a" and "cell_num lng = Some b"
  shows "\<exists>v G' k g1. get_station_variants L (PyStr n) station_id lat lng G = Some (v, G')
     \<and> station_variants G' n = Some v
     \<and> randint 3 4 (rng G) = (k, g1) \<and> (k = 3 \<or> k = 4)
     \<and> coordinates v =
           map (\<lambda>(u, w). (PyFloat (float_add L a u), PyFloat (float_add L b w)))
             (variations (nat k) g1)
     \<and> length (variations (nat k) g1) = nat k
     \<and> (\<forall>(u, w) \<in> set (variations (nat k) g1). - 1 \<le> u \<and> u < 1 \<and> - 1 \<le> w \<and> w < 1)
     \<and> ((PyFloat a, PyFloat b) \<in> set (coordinates v) \<longleftrightarrow>
          (\<exists>(u, w) \<in> set (variations (nat k) g1). float_add L a u = a \<and> float_add L b w = b))"
proof -
  obtain k g1 where k: "randint 3 4 (rng G) = (k, g1)" by force
  define cs where "cs = map (\<lambda>(u, w). (PyFloat (float_add L a u), PyFloat (float_add L b w)))
                          (variations (nat k) g1)"
  define v where "v = \<lparr>names = name_variants L n, ids = id_variants L station_id,
                        coordinates = cs\<rparr>"
  from jitter_numeric [OF assms(2,3), of L "nat k" g1] obtain g2 where
    j: "jitter L (nat k) lat lng g1 = Some (cs, g2)"
    unfolding cs_def by blast
  have run: "get_station_variants L (PyStr n) station_id lat lng G =
     Some (v, G\<lparr>station_variants := (station_variants G)(n \<mapsto> v), rng := g2\<rparr>)"
    using assms(1) k j cell_num_present [OF assms(2)] cell_num_present [OF assms(3)]
    by (simp add: get_station_variants_def isna_def Let_def v_def)
  have reg: "station_variants (G\<lparr>station_variants := (station_variants G)(n \<mapsto> v), rng := g2\<rparr>) n
               = Some v"
    by simp
  have co: "coordinates v =
           map (\<lambda>(u, w). (PyFloat (float_add L a u), PyFloat (float_add L b w)))
             (variations (nat k) g1)"
    by (simp add: v_def cs_def)
  from variations_range [of "nat k" g1] have
    len: "length (variations (nat k) g1) = nat k" and
    rg: "\<forall>(u, w) \<in> set (variations (nat k) g1). - 1 \<le> u \<and> u < 1 \<and> - 1 \<le> w \<and> w < 1"
    by simp_all
  from randint_3_4 [OF k] have k34: "k = 3 \<or> k = 4" .
  have orig: "(PyFloat a, PyFloat b) \<in> set (coordinates v) \<longleftrightarrow>
          (\<exists>(u, w) \<in> set (variations (nat k) g1). float_add L a u = a \<and> float_add L b w = b)"
    unfolding co by force
  show ?thesis
    by (intro exI conjI) (fact run reg k k34 co len rg orig)+
qed

text \<open>
  The statement at the station \<^verbatim>\<open>'a st'\<close> at (10, 20), in a new generator whose first draw
  is 0: three points, each (10, 20) moved by the variations of its round.
\<close>

theorem coordinate_variants_are_jittered_witness:
  "\<exists>v G'. get_station_variants ascii_lib (PyStr ''a st'') (PyStr ''TA13'') (PyFloat 10) (PyFloat 20)
             (new_generator (15 / 100) (3 / 100) (sconst 0)) = Some (v, G')
     \<and> coordinates v =
           map (\<lambda>(u, w). (PyFloat (float_add ascii_lib 10 u), PyFloat (float_add ascii_lib 20 w)))
             (variations 3 (sconst 0))
     \<and> length (variations 3 (sconst 0)) = 3"
proof -
  let ?G = "new_generator (15 / 100) (3 / 100) (sconst 0)"
  have n: "station_variants ?G ''a st'' = None"
    by (simp add: new_generator_def)
  have r: "randint 3 4 (rng ?G) = (3, sconst 0)"
    by (simp add: randint_def new_generator_def)
  from coordinate_variants_are_jittered [OF n, of "PyFloat 10" 10 "PyFloat 20" 20
      ascii_lib "PyStr ''TA13''"]
  obtain v G' k g1 where
    run: "get_station_variants ascii_lib (PyStr ''a st'') (PyStr ''TA13'') (PyFloat 10)
            (PyFloat 20) ?G = Some (v, G')" and
    k: "randint 3 4 (rng ?G) = (k, g1)" and
    co: "coordinates v =
           map (\<lambda>(u, w). (PyFloat (float_add ascii_lib 10 u), PyFloat (float_add ascii_lib 20 w)))
             (variations (nat k) g1)" and
    len: "length (variations (nat k) g1) = nat k"
    by auto
  from k r have "k = 3" "g1 = sconst 0" by simp_all
  with run co len show ?thesis by auto
qed

text \<open>
  C7 as the specification states it fails in two ways. With every draw 0 the station
  at (10, 20) gets three variants, all of them the jittered point (9, 19): the original
  point is not among them. And the float addition rounds: from the latitude
  \<^verbatim>\<open>-15.999999999999998\<close> the variation -1 leads to the latitude -17, which is more than
  one degree away.
\<close>

theorem original_point_not_a_variant:
  "map_option (coordinates \<circ> fst)
     (get_station_variants ascii_lib (PyStr ''a st'') (PyStr ''TA13'') (PyFloat 10) (PyFloat 20)
        (new_generator (15 / 100) (3 / 100) (sconst 0)))
   = Some [(PyFloat 9, PyFloat 19), (PyFloat 9, PyFloat 19), (PyFloat 9, PyFloat 19)]
   \<and> map_option (coordinates \<circ> fst)
     (get_station_variants ascii_lib (PyStr ''a st'') (PyStr ''TA13'') (PyFloat float_below_16)
        (PyFloat 20) (new_generator (15 / 100) (3 / 100) (sconst 0)))
   = Some [(PyFloat (- 17), PyFloat 19), (PyFloat (- 17), PyFloat 19), (PyFloat (- 17), PyFloat 19)]
   \<and> 1 < \<bar>- 17 - float_below_16\<bar>"
  by (simp add: get_station_variants_def isna_def Let_def randint_def uniform_def
      random_random_def new_generator_def numeral_3_eq_3 lib_add_lat lib_add_lng
      lib_add_below_16)
    (simp add: float_below_16_def)

text \<open>
  When \<^verbatim>\<open>random.random()\<close> returns 0.5 the variation is 0, and the point of that round is
  the original point: with every draw \<open>2\<^sup>5\<^sup>2\<close> the three variants of the station at
  (10, 20) are all (10, 20).
\<close>

lemma original_point_drawn:
  "map_option (coordinates \<circ> fst)
     (get_station_variants ascii_lib (PyStr ''a st'') (PyStr ''TA13'') (PyFloat 10) (PyFloat 20)
        (new_generator (15 / 100) (3 / 100) (sconst 4503599627370496)))
   = Some [(PyFloat 10, PyFloat 20), (PyFloat 10, PyFloat 20), (PyFloat 10, PyFloat 20)]"
  by (simp add: get_station_variants_def isna_def Let_def randint_def uniform_def
      random_random_def new_generator_def numeral_3_eq_3 lib_add_zero)

text \<open>
  The registry by itself. A resolve of a name returns the variant set it stores under
  that name; any later resolve of the same name, in any state whose registry extends
  the one the first resolve left, returns that same variant set whatever id, latitude
  and longitude it is given, and changes nothing, not even the random source. Every
  operation of a run leaves a registry that extends the one it found: the registry
  itself, the name and id mutator, the coordinate mutator, a whole row, and
  \<^verbatim>\<open>introduce_errors\<close>. So an entry is created at most once in a run and never changed.
  Under which name a row resolves is another matter, see the last section.
\<close>

lemma registry_entry_created_once:
  "(get_station_variants L (PyStr n) i1 la1 lg1 G1 = Some (v1, G2)
      \<and> station_variants G2 \<subseteq>\<^sub>m station_variants G3
      \<and> get_station_variants L (PyStr n) i2 la2 lg2 G3 = Some (v2, G4)
      \<longrightarrow> v2 = v1 \<and> G4 = G3)
   \<and> (get_station_variants L name i la lg G = Some (v, G')
      \<longrightarrow> station_variants G \<subseteq>\<^sub>m station_variants G')
   \<and> (modify_station_name L name i G = Some (r1, G')
      \<longrightarrow> station_variants G \<subseteq>\<^sub>m station_variants G')
   \<and> (modify_coordinates L la lg name i G = Some (r2, G')
      \<longrightarrow> station_variants G \<subseteq>\<^sub>m station_variants G')
   \<and> (row_step L idx (T, G) = Some (T', G')
      \<longrightarrow> station_variants G \<subseteq>\<^sub>m station_variants G')
   \<and> (introduce_errors L df (h, G) = Some (r3, h', G')
      \<longrightarrow> station_variants G \<subseteq>\<^sub>m station_variants G')"
proof -
  have "v2 = v1 \<and> G4 = G3"
    if a: "get_station_variants L (PyStr n) i1 la1 lg1 G1 = Some (v1, G2)"
      and b: "station_variants G2 \<subseteq>\<^sub>m station_variants G3"
      and c: "get_station_variants L (PyStr n) i2 la2 lg2 G3 = Some (v2, G4)"
  proof -
    from get_registers [OF a] have "station_variants G2 n = Some v1" by simp
    with b have "station_variants G3 n = Some v1"
      by (metis domI map_le_def)
    from get_cached [OF this, of L i2 la2 lg2] c show ?thesis by simp
  qed
  then show ?thesis
    by (intro conjI impI)
      (blast dest: get_le modify_station_name_le modify_coordinates_le row_step_inv
         introduce_errors_inv)+
qed

text \<open>
  At the station \<^verbatim>\<open>'a st'\<close>: the name and id mutator's resolve creates the entry, and a
  second resolve with another id and with coordinates returns the same entry.
\<close>

lemma registry_entry_created_once_at_a_st:
  "\<exists>v G2. get_station_variants ascii_lib (PyStr ''a st'') (PyStr ''TA13'') PyNone PyNone
             (new_generator (15 / 100) (3 / 100) (sconst 0)) = Some (v, G2)
     \<and> get_station_variants ascii_lib (PyStr ''a st'') (PyStr ''77'') (PyFloat 10) (PyFloat 20) G2
         = Some (v, G2)"
proof -
  obtain v G2 where
    a: "get_station_variants ascii_lib (PyStr ''a st'') (PyStr ''TA13'') PyNone PyNone
          (new_generator (15 / 100) (3 / 100) (sconst 0)) = Some (v, G2)"
    by (simp add: get_station_variants_def isna_def Let_def randint_def new_generator_def)
  from get_registers [OF a] have "station_variants G2 ''a st'' = Some v" by simp
  from get_cached [OF this] obtain v2 G4 where
    c: "get_station_variants ascii_lib (PyStr ''a st'') (PyStr ''77'') (PyFloat 10) (PyFloat 20) G2
          = Some (v2, G4)"
    by blast
  have "station_variants G2 \<subseteq>\<^sub>m station_variants G2" by simp
  with registry_entry_created_once [of ascii_lib "''a st''" "PyStr ''TA13''" PyNone PyNone
      "new_generator (15 / 100) (3 / 100) (sconst 0)" v G2 G2 "PyStr ''77''" "PyFloat 10"
      "PyFloat 20" v2 G4] a c
  have "v2 = v \<and> G4 = G2" by blast
  with a c show ?thesis by blast
qed

section \<open>Runs on the sample frame\<close>

lemma no_int_nan: "ascii_int_of_str ''nan'' = None"
  by code_simp

lemma no_int_ta: "ascii_int_of_str ''TA13'' = None"
  by code_simp

lemma lib_ids_nan: "id_variants ascii_lib (PyStr ''nan'') = [PyStr ''nan'']"
  by (simp add: id_variants_def isna_def lib_fields no_int_nan)

lemma lib_ids_ta: "id_variants ascii_lib (PyStr ''TA13'') = [PyStr ''TA13'']"
  by (simp add: id_variants_def isna_def lib_fields no_int_ta)

lemmas table_eval =
  introduce_errors_def
  corrupt_table_def lib_no_empty_1 lib_no_empty_2 sample_range_def loc_set_none_def astype_str_def row_step_def
  ride_id_stage_def rideable_stage_def datetime_stage_def station_stage_def
  coordinate_stage_def member_stage_def at_get_def at_set_def notna_def isna_def
  modify_ride_id_def modify_rideable_type_def modify_datetime_def modify_station_name_def
  modify_coordinates_def modify_member_type_def should_introduce_error_def random_random_def
  get_station_variants_def randint_def new_generator_def Let_def
  trip_table_def trip_columns_def trip_row_def lib_ids_nan lib_ids_ta

lemma quiet_run_returns:
  "\<exists>r h' G'. introduce_errors ascii_lib 0 ([trip_table], quiet_generator) = Some (r, h', G')"
proof -
  have "map_option (\<lambda>(r, h', G'). r)
          (introduce_errors ascii_lib 0 ([trip_table], quiet_generator)) = Some 1"
    by (simp add: table_eval quiet_generator_def)
  then show ?thesis by auto
qed

text \<open>
  C4. The start station id of the sample trip is missing. Line 220 turns the whole
  column into strings, the missing marker NaN into the string \<^verbatim>\<open>'nan'\<close>; with no
  probability test succeeding nothing else touches the cell, and the frame that
  \<^verbatim>\<open>introduce_errors\<close> returns holds the string \<^verbatim>\<open>'nan'\<close>, which \<^verbatim>\<open>pd.isna\<close> does not
  take for missing.
\<close>

theorem missing_station_id_becomes_string:
  "isna ((rows trip_table ! 0) ''start_station_id'')
   \<and> map_option (\<lambda>(r, h', G'). (rows (h' ! r) ! 0) ''start_station_id'')
        (introduce_errors ascii_lib 0 ([trip_table], quiet_generator)) = Some (PyStr ''nan'')
   \<and> \<not> isna (PyStr ''nan'')"
  by (simp add: table_eval quiet_generator_def)

text \<open>
  C5. Whenever \<^verbatim>\<open>introduce_errors\<close> returns a frame, for every library, every store,
  every generator state and every sequence of draws, that frame has the column labels
  of the caller's frame, in the same order, and as many rows.
\<close>

theorem introduce_errors_keeps_shape:
  assumes "introduce_errors L df (h, G) = Some (r, h', G')"
  shows "columns (h' ! r) = columns (h ! df) \<and> length (rows (h' ! r)) = length (rows (h ! df))"
  using introduce_errors_inv [OF assms] by blast

text \<open>The run on the sample trip returns, and its result has the 13 columns and the one row.\<close>

theorem introduce_errors_keeps_shape_witness:
  "\<exists>r h' G'. introduce_errors ascii_lib 0 ([trip_table], quiet_generator) = Some (r, h', G')
     \<and> columns (h' ! r) = trip_columns \<and> length (rows (h' ! r)) = 1"
proof -
  obtain r h' G' where
    run: "introduce_errors ascii_lib 0 ([trip_table], quiet_generator) = Some (r, h', G')"
    using quiet_run_returns by blast
  from introduce_errors_keeps_shape [OF run] have
    "columns (h' ! r) = trip_columns \<and> length (rows (h' ! r)) = 1"
    by (simp add: trip_table_def)
  with run show ?thesis by blast
qed

text \<open>
  C10, as the code has it. \<^verbatim>\<open>introduce_errors\<close> works on \<^verbatim>\<open>df.copy()\<close>: the frame it
  returns is a new object, and the caller's frame, like every other frame of the store,
  is what it was before the call.
\<close>

theorem introduce_errors_leaves_input:
  assumes "introduce_errors L df (h, G) = Some (r, h', G')"
  shows "r \<noteq> df \<and> h' ! df = h ! df \<and> take (length h) h' = h"
proof -
  from introduce_errors_inv [OF assms] have
    r: "r = length h" and df: "df < length h" and tk: "take (length h) h' = h"
    by simp_all
  from tk df have "h' ! df = h ! df"
    by (metis nth_take)
  with r df tk show ?thesis by simp
qed

text \<open>On the sample trip: the result is the object 1, and the object 0 is still the trip.\<close>

theorem introduce_errors_leaves_input_witness:
  "\<exists>r h' G'. introduce_errors ascii_lib 0 ([trip_table], quiet_generator) = Some (r, h', G')
     \<and> r \<noteq> 0 \<and> h' ! 0 = trip_table"
proof -
  obtain r h' G' where
    run: "introduce_errors ascii_lib 0 ([trip_table], quiet_generator) = Some (r, h', G')"
    using quiet_run_returns by blast
  from introduce_errors_leaves_input [OF run] have "r \<noteq> 0 \<and> h' ! 0 = trip_table"
    by simp
  with run show ?thesis by blast
qed

text \<open>
  C10 as the specification states it fails: with the first draw 0 the ride id of the
  sample trip gets its blank, but in the returned object 1 only; the object 0 that was
  passed in still holds \<^verbatim>\<open>'AB12'\<close>.
\<close>

theorem input_frame_not_mutated:
  "map_option (\<lambda>(r, h', G').
       (r, (rows (h' ! 0) ! 0) ''ride_id'', (rows (h' ! r) ! 0) ''ride_id''))
     (introduce_errors ascii_lib 0 ([trip_table], spacing_generator))
   = Some (1, PyStr ''AB12'', PyStr ''AB 12'')"
  by (simp add: table_eval spacing_generator_def)

section \<open>Names, ids and coordinates of one station\<close>

lemma id_variants_nonempty: "id_variants L i \<noteq> []"
  by (auto simp: id_variants_def split: cell.splits option.splits)

lemma sie_fst_True:
  "fst (should_introduce_error G) \<Longrightarrow> \<exists>G'. should_introduce_error G = (True, G')
      \<and> station_variants G' = station_variants G"
  by (cases "should_introduce_error G") (auto dest: sie_registry)

text \<open>
  When the name and id mutator is the first to resolve a station name (the name is a
  string not yet in the registry, the id is present), the call returns and the entry
  it leaves has the single coordinate variant \<^verbatim>\<open>(None, None)\<close>, because line 160 passes
  no coordinates. In every later state of the run, if the coordinate mutator is called
  for that name with both coordinates present and its probability test succeeds, it
  returns \<^verbatim>\<open>(None, None)\<close>.
\<close>

lemma coordinates_erased_after_first_name_resolve:
  assumes "\<not> isna station_id" and "station_variants G n = None"
  shows "\<exists>r G1 v. modify_station_name L (PyStr n) station_id G = Some (r, G1)
     \<and> station_variants G1 n = Some v \<and> coordinates v = [(PyNone, PyNone)]
     \<and> (\<forall>G2 lat lng i'. station_variants G1 \<subseteq>\<^sub>m station_variants G2
            \<and> \<not> isna lat \<and> \<not> isna lng \<and> fst (should_introduce_error G2)
          \<longrightarrow> (\<exists>G3. modify_coordinates L lat lng (PyStr n) i' G2
                       = Some ((PyNone, PyNone), G3)))"
proof -
  define v where "v = \<lparr>names = name_variants L n, ids = id_variants L station_id,
                        coordinates = [(PyNone, PyNone)]\<rparr>"
  obtain k g1 where k: "randint 3 4 (rng G) = (k, g1)" by force
  define Ga where "Ga = G\<lparr>station_variants := (station_variants G)(n \<mapsto> v), rng := g1\<rparr>"
  have get: "get_station_variants L (PyStr n) station_id PyNone PyNone G = Some (v, Ga)"
    using assms(2) k by (simp add: get_station_variants_def isna_def Let_def v_def Ga_def)
  obtain b1 G2 where b1: "should_introduce_error Ga = (b1, G2)" by force
  obtain mn G3 where mn: "(if b1 then gen_choice (names v) G2 else Some (PyStr n, G2)) = Some (mn, G3)"
    and r3: "station_variants G3 = station_variants G2"
    using gen_choice_total [of "names v" G2] gen_choice_Some [of "names v" G2]
    by (cases b1) (auto simp: v_def name_variants_def)
  obtain b2 G4 where b2: "should_introduce_error G3 = (b2, G4)" by force
  obtain mi G5 where mi: "(if b2 then gen_choice (ids v) G4
                           else Some (PyStr (py_str L station_id), G4)) = Some (mi, G5)"
    and r5: "station_variants G5 = station_variants G4"
    using gen_choice_total [of "ids v" G4] gen_choice_Some [of "ids v" G4] id_variants_nonempty [of L station_id]
    by (cases b2) (auto simp: v_def)
  have run: "modify_station_name L (PyStr n) station_id G = Some ((mn, mi), G5)"
    using assms(1) get b1 mn b2 mi by (simp add: modify_station_name_def isna_def)
  have reg: "station_variants G5 n = Some v"
    using r5 r3 sie_registry [OF b1] sie_registry [OF b2] by (simp add: Ga_def)
  have later: "\<exists>G3. modify_coordinates L lat lng (PyStr n) i' S = Some ((PyNone, PyNone), G3)"
    if le: "station_variants G5 \<subseteq>\<^sub>m station_variants S" and la: "\<not> isna lat" and lg: "\<not> isna lng"
      and fire: "fst (should_introduce_error S)" for S lat lng i'
  proof -
    from sie_fst_True [OF fire] obtain S' where
      s: "should_introduce_error S = (True, S')" and rs: "station_variants S' = station_variants S"
      by blast
    from le reg have "station_variants S n = Some v"
      by (metis domI map_le_def)
    with rs have "station_variants S' n = Some v" by simp
    from get_cached [OF this] have
      g: "get_station_variants L (PyStr n) i' lat lng S' = Some (v, S')" .
    obtain c S'' where c: "gen_choice (coordinates v) S' = Some (c, S'')"
      using gen_choice_total [of "coordinates v" S'] by (auto simp: v_def)
    from gen_choice_Some [OF c] have "c = (PyNone, PyNone)" by (simp add: v_def)
    with s g c la lg show ?thesis
      by (simp add: modify_coordinates_def isna_def)
  qed
  have "coordinates v = [(PyNone, PyNone)]" by (simp add: v_def)
  with run reg later show ?thesis by blast
qed

lemma lib_names_a:
  "name_variants ascii_lib ''a st'' =
   [PyStr ''a st'', PyStr ''A St'', PyStr ''A ST'', PyStr ''a st'', PyStr ''a  st'']"
  unfolding name_variants_def lib_fields by code_simp

lemma lib_names_A:
  "name_variants ascii_lib ''A St'' =
   [PyStr ''A St'', PyStr ''A St'', PyStr ''A ST'', PyStr ''A St'', PyStr ''A  St'']"
  unfolding name_variants_def lib_fields by code_simp

lemma first_trip_renamed:
  "modify_station_name ascii_lib (PyStr ''a st'') (PyStr ''TA13'') renaming_generator
   = Some ((PyStr ''A St'', PyStr ''TA13''), renamed_generator)"
  by (simp add: modify_station_name_def isna_def get_station_variants_def randint_def Let_def
      should_introduce_error_def random_random_def gen_choice_def choice_def
      renaming_generator_def new_generator_def lib_names_a lib_ids_ta
      renamed_generator_def a_st_variants_def)

lemma renamed_fires: "should_introduce_error renamed_generator = (True, renamed_generator)"
  by (simp add: should_introduce_error_def random_random_def renamed_generator_def)

lemma jitter_zero:
  "jitter ascii_lib 3 (PyFloat 10) (PyFloat 20) (sconst 0) =
   Some ([(PyFloat 9, PyFloat 19), (PyFloat 9, PyFloat 19), (PyFloat 9, PyFloat 19)], sconst 0)"
  by (simp add: numeral_3_eq_3 uniform_def random_random_def lib_add_lat lib_add_lng)

lemma A_St_registered:
  "get_station_variants ascii_lib (PyStr ''A St'') (PyStr ''TA13'') (PyFloat 10) (PyFloat 20)
     renamed_generator = Some (A_St_variants, jittered_generator)"
  by (simp add: get_station_variants_def isna_def randint_def Let_def jitter_zero lib_names_A
      lib_ids_ta renamed_generator_def jittered_generator_def A_St_variants_def)

lemma A_St_coordinate_choice:
  "gen_choice (coordinates A_St_variants) jittered_generator
   = Some ((PyFloat 9, PyFloat 19), jittered_generator)"
  by (simp add: gen_choice_def choice_def A_St_variants_def jittered_generator_def)

lemma first_trip_moved:
  "modify_coordinates ascii_lib (PyFloat 10) (PyFloat 20) (PyStr ''A St'') (PyStr ''TA13'')
     renamed_generator
   = Some ((PyFloat 9, PyFloat 19), jittered_generator)"
  by (simp add: modify_coordinates_def isna_def renamed_fires A_St_registered
      A_St_coordinate_choice)

lemma jittered_fires: "should_introduce_error jittered_generator = (True, jittered_generator)"
  by (simp add: should_introduce_error_def random_random_def jittered_generator_def)

lemma A_St_cached:
  "get_station_variants ascii_lib (PyStr ''A St'') i la lg jittered_generator
   = Some (A_St_variants, jittered_generator)"
  by (simp add: get_station_variants_def isna_def jittered_generator_def)

lemma A_St_name_choice:
  "gen_choice (names A_St_variants) jittered_generator = Some (PyStr ''A St'', jittered_generator)"
  by (simp add: gen_choice_def choice_def A_St_variants_def jittered_generator_def)

lemma A_St_id_choice:
  "gen_choice (ids A_St_variants) jittered_generator = Some (PyStr ''TA13'', jittered_generator)"
  by (simp add: gen_choice_def choice_def A_St_variants_def jittered_generator_def)

lemma second_trip_named:
  "modify_station_name ascii_lib (PyStr ''A St'') (PyStr ''TA13'') jittered_generator
   = Some ((PyStr ''A St'', PyStr ''TA13''), jittered_generator)"
  by (simp add: modify_station_name_def isna_def jittered_fires A_St_cached A_St_name_choice
      A_St_id_choice)

lemma second_trip_moved:
  "modify_coordinates ascii_lib (PyFloat 30) (PyFloat 40) (PyStr ''A St'') (PyStr ''TA13'')
     jittered_generator
   = Some ((PyFloat 9, PyFloat 19), jittered_generator)"
  by (simp add: modify_coordinates_def isna_def jittered_fires A_St_cached
      A_St_coordinate_choice)

lemma a_st_cached:
  "get_station_variants ascii_lib (PyStr ''a st'') i la lg jittered_generator
   = Some (a_st_variants, jittered_generator)"
  by (simp add: get_station_variants_def isna_def jittered_generator_def)

lemma a_st_name_choice:
  "gen_choice (names a_st_variants) jittered_generator = Some (PyStr ''a st'', jittered_generator)"
  by (simp add: gen_choice_def choice_def a_st_variants_def jittered_generator_def)

lemma a_st_id_choice:
  "gen_choice (ids a_st_variants) jittered_generator = Some (PyStr ''TA13'', jittered_generator)"
  by (simp add: gen_choice_def choice_def a_st_variants_def jittered_generator_def)

lemma a_st_coordinate_choice:
  "gen_choice (coordinates a_st_variants) jittered_generator
   = Some ((PyNone, PyNone), jittered_generator)"
  by (simp add: gen_choice_def choice_def a_st_variants_def jittered_generator_def)

lemma return_trip_named:
  "modify_station_name ascii_lib (PyStr ''a st'') (PyStr ''TA13'') jittered_generator
   = Some ((PyStr ''a st'', PyStr ''TA13''), jittered_generator)"
  by (simp add: modify_station_name_def isna_def jittered_fires a_st_cached a_st_name_choice
      a_st_id_choice)

lemma return_trip_erased:
  "modify_coordinates ascii_lib (PyFloat 30) (PyFloat 40) (PyStr ''a st'') (PyStr ''TA13'')
     jittered_generator
   = Some ((PyNone, PyNone), jittered_generator)"
  by (simp add: modify_coordinates_def isna_def jittered_fires a_st_cached
      a_st_coordinate_choice)

lemma jittered_registry:
  "map_option coordinates (station_variants jittered_generator ''a st'') = Some [(PyNone, PyNone)]"
  "map_option coordinates (station_variants jittered_generator ''A St'')
   = Some [(PyFloat 9, PyFloat 19), (PyFloat 9, PyFloat 19), (PyFloat 9, PyFloat 19)]"
  by (simp_all add: jittered_generator_def a_st_variants_def A_St_variants_def)

lemma renaming_max_empty: "max_empty_percentage renaming_generator = 3 / 100"
  by (simp add: renaming_generator_def new_generator_def)

lemmas sparse_eval =
  introduce_errors_def
  corrupt_table_def lib_no_empty_1 lib_no_empty_2 sample_range_def loc_set_none_def astype_str_def row_step_def
  ride_id_stage_def rideable_stage_def datetime_stage_def station_stage_def
  coordinate_stage_def member_stage_def at_get_def at_set_def notna_def isna_def
  modify_ride_id_def Let_def trip_columns_def renaming_max_empty
  lone_table_def pair_table_def same_name_table_def lone_row_def second_row_def return_row_def
  first_trip_renamed first_trip_moved second_trip_named second_trip_moved
  return_trip_named return_trip_erased

text \<open>
  At the station \<^verbatim>\<open>'a st'\<close>: its entry has the coordinates \<^verbatim>\<open>(None, None)\<close>, and the
  coordinate mutator, called for \<^verbatim>\<open>'a st'\<close> at (10, 20) in the state the name mutator
  left, returns \<^verbatim>\<open>(None, None)\<close>.
\<close>

lemma coordinates_erased_at_a_st:
  "\<exists>r G1 v G3. modify_station_name ascii_lib (PyStr ''a st'') (PyStr ''TA13'') renaming_generator
                 = Some (r, G1)
     \<and> station_variants G1 ''a st'' = Some v \<and> coordinates v = [(PyNone, PyNone)]
     \<and> modify_coordinates ascii_lib (PyFloat 10) (PyFloat 20) (PyStr ''a st'') (PyStr ''TA13'') G1
         = Some ((PyNone, PyNone), G3)"
proof -
  have a: "\<not> isna (PyStr ''TA13'')" by (simp add: isna_def)
  have b: "station_variants renaming_generator ''a st'' = None"
    by (simp add: renaming_generator_def new_generator_def)
  from coordinates_erased_after_first_name_resolve [OF a b, of ascii_lib]
  obtain r G1 v where
    run: "modify_station_name ascii_lib (PyStr ''a st'') (PyStr ''TA13'') renaming_generator
            = Some (r, G1)" and
    reg: "station_variants G1 ''a st'' = Some v" and co: "coordinates v = [(PyNone, PyNone)]" and
    later: "\<forall>G2 lat lng i'. station_variants G1 \<subseteq>\<^sub>m station_variants G2
            \<and> \<not> isna lat \<and> \<not> isna lng \<and> fst (should_introduce_error G2)
          \<longrightarrow> (\<exists>G3. modify_coordinates ascii_lib lat lng (PyStr ''a st'') i' G2
                       = Some ((PyNone, PyNone), G3))"
    by blast
  from run first_trip_renamed have G1: "G1 = renamed_generator" by simp
  have "station_variants G1 \<subseteq>\<^sub>m station_variants G1 \<and> \<not> isna (PyFloat 10)
     \<and> \<not> isna (PyFloat 20) \<and> fst (should_introduce_error G1)"
    by (simp add: G1 renamed_fires isna_def)
  with later obtain G3 where
    "modify_coordinates ascii_lib (PyFloat 10) (PyFloat 20) (PyStr ''a st'') (PyStr ''TA13'') G1
       = Some ((PyNone, PyNone), G3)"
    by blast
  with run reg co show ?thesis by blast
qed

text \<open>
  C6. The frame has two trips. The first trip's name \<^verbatim>\<open>'a st'\<close> is mutated to \<^verbatim>\<open>'A St'\<close>,
  and its coordinate stage, which reads the name back from the frame, registers
  \<^verbatim>\<open>'A St'\<close> with points jittered around (10, 20). The second trip has the name
  \<^verbatim>\<open>'A St'\<close>, its id and both coordinates (30, 40), and this name has never been given to
  the name and id mutator before. Its name and id mutation does not register the name
  without coordinates: it finds the entry of the first trip's coordinate stage, the
  name stays \<^verbatim>\<open>'A St'\<close>, and the coordinate mutation, whose test fires, puts (9, 19) into
  the row where the claim has \<^verbatim>\<open>(None, None)\<close>.
\<close>

theorem coordinates_taken_from_earlier_spelling:
  "map_option (\<lambda>(r, h', G').
       ((rows (h' ! r) ! 1) ''start_station_name'',
        (rows (h' ! r) ! 1) ''start_lat'', (rows (h' ! r) ! 1) ''start_lng''))
     (introduce_errors ascii_lib 0 ([pair_table], renaming_generator))
   = Some (PyStr ''A St'', PyFloat 9, PyFloat 19)"
  by (simp add: sparse_eval)

text \<open>
  C1. Both trips of the frame have the start station \<^verbatim>\<open>'a st'\<close>. The name of the first is
  mutated to \<^verbatim>\<open>'A St'\<close>; its coordinate stage reads that name back from the frame and
  draws the coordinates (9, 19) from the pool of a second registry entry, made under
  \<^verbatim>\<open>'A St'\<close>. The name of the second trip stays \<^verbatim>\<open>'a st'\<close>, and its coordinates are drawn
  from the pool of the entry of \<^verbatim>\<open>'a st'\<close>, which holds \<^verbatim>\<open>(None, None)\<close> only. Two rows
  that reference the same station name have drawn from two different coordinate pools.
\<close>

theorem same_name_different_pools:
  "(rows same_name_table ! 0) ''start_station_name'' = PyStr ''a st''
   \<and> (rows same_name_table ! 1) ''start_station_name'' = PyStr ''a st''
   \<and> map_option (\<lambda>(r, h', G').
       (((rows (h' ! r) ! 0) ''start_station_name'',
         (rows (h' ! r) ! 0) ''start_lat'', (rows (h' ! r) ! 0) ''start_lng''),
        ((rows (h' ! r) ! 1) ''start_station_name'',
         (rows (h' ! r) ! 1) ''start_lat'', (rows (h' ! r) ! 1) ''start_lng''),
        map_option coordinates (station_variants G' ''a st''),
        map_option coordinates (station_variants G' ''A St'')))
     (introduce_errors ascii_lib 0 ([same_name_table], renaming_generator))
   = Some ((PyStr ''A St'', PyFloat 9, PyFloat 19), (PyStr ''a st'', PyNone, PyNone),
           Some [(PyNone, PyNone)],
           Some [(PyFloat 9, PyFloat 19), (PyFloat 9, PyFloat 19), (PyFloat 9, PyFloat 19)])"
  by (simp add: sparse_eval jittered_registry)

text \<open>
  C2. On the first trip alone: the name and id stage resolves \<^verbatim>\<open>'a st'\<close> and writes the
  variant \<^verbatim>\<open>'A St'\<close> into the frame; lines 262 and 263 read the name back from the frame,
  so the coordinate stage resolves \<^verbatim>\<open>'A St'\<close>, a name the registry does not know, and a
  second entry is made. The row's coordinates (9, 19) come from that second entry; the
  entry of \<^verbatim>\<open>'a st'\<close>, the key of the name and id stage, has the coordinates
  \<^verbatim>\<open>(None, None)\<close> only.
\<close>

theorem coordinates_resolved_under_mutated_name:
  "map_option (\<lambda>(r, h', G').
       ((rows (h' ! r) ! 0) ''start_station_name'',
        (rows (h' ! r) ! 0) ''start_lat'', (rows (h' ! r) ! 0) ''start_lng'',
        map_option coordinates (station_variants G' ''a st''),
        map_option coordinates (station_variants G' ''A St'')))
     (introduce_errors ascii_lib 0 ([lone_table], renaming_generator))
   = Some (PyStr ''A St'', PyFloat 9, PyFloat 19, Some [(PyNone, PyNone)],
           Some [(PyFloat 9, PyFloat 19), (PyFloat 9, PyFloat 19), (PyFloat 9, PyFloat 19)])"
  by (simp add: sparse_eval jittered_generator_def a_st_variants_def A_St_variants_def)

section \<open>The injection of missing values\<close>













end
